theory Spec2Isabelle
  imports Complex_Main "HOL-Library.Sublist"
begin

section \<open>Record model (types.ts)\<close>

text \<open>
  The interfaces \<open>Set\<close>, \<open>Exercise\<close> and \<open>Workout\<close> of the client. The store only
  copies and replaces the \<open>weight\<close> and \<open>reps\<close> of a set (it never calculates with
  them), so their type is a parameter \<open>'n\<close> with a zero (the value a new exercise starts
  with); the advice gateway, which compares and prints them, works on the type
  \<open>Number\<close> of JavaScript's number values below. Identifiers, names and dates are
  strings. Seconds are counted from \<open>0\<close> in steps of one and are natural numbers.
\<close>

record 'n WorkoutSet =
  s_id :: string
  s_weight :: 'n
  s_reps :: 'n
  s_completed :: bool

record 'n Exercise =
  e_id :: string
  e_name :: string
  e_sets :: "'n WorkoutSet list"

datatype Status = Active | Completed

record 'n Workout =
  w_id :: string
  w_name :: string
  w_date :: string
  w_exercises :: "'n Exercise list"
  w_status :: Status
  w_durationSeconds :: nat

datatype ViewState = DASHBOARD | ACTIVE_WORKOUT | HISTORY | PROFILE

datatype Field = Weight | Reps

section \<open>Advice gateway (services/geminiService.ts)\<close>

text \<open>
  The external generation endpoint is a parameter: what \<open>ai.models.generateContent\<close>
  does with a prompt is either to throw (transport failure, malformed response; the
  string is the printed error) or to answer with a response whose \<open>text\<close> may be
  undefined.
\<close>

datatype ApiOutcome = Throws string | Responds "string option"

type_synonym Endpoint = "string \<Rightarrow> ApiOutcome"

text \<open>\<open>process.env.API_KEY || ''\<close>: an unset variable and an empty one both give \<open>''\<close>.\<close>

definition apiKey_of :: "string option \<Rightarrow> string" where
  "apiKey_of env = (case env of None \<Rightarrow> [] | Some k \<Rightarrow> k)"

text \<open>Decimal printing of the numbers that the templates interpolate.\<close>

definition digit_char :: "nat \<Rightarrow> char" where
  "digit_char d = char_of (48 + d)"

fun string_of_nat :: "nat \<Rightarrow> string" where
  "string_of_nat n =
     (if n < 10 then [digit_char n] else string_of_nat (n div 10) @ [digit_char (n mod 10)])"

declare string_of_nat.simps [simp del]

definition string_of_int :: "int \<Rightarrow> string" where
  "string_of_int i =
     (if i < 0 then CHR ''-'' # string_of_nat (nat (- i)) else string_of_nat (nat i))"

text \<open>
  The values of JavaScript's \<open>number\<close>: \<open>NaN\<close>, the two infinities and the finite
  doubles. A finite double is a rational number and is modelled by its value (positive
  and negative zero are one value here: \<open>Math.max\<close> followed by printing does not tell
  them apart, both print as \<open>0\<close>). The literal \<open>0\<close> of \<open>addExercise\<close> is \<open>Finite 0\<close>.
\<close>

datatype Number = NaN | NegInfinity | PosInfinity | Finite rat

instantiation Number :: zero
begin

definition zero_Number :: Number where
  "zero_Number = Finite 0"

instance ..

end

text \<open>The comparison \<open>a < b\<close> of two numbers; it is false when one of them is \<open>NaN\<close>.\<close>

fun number_less :: "Number \<Rightarrow> Number \<Rightarrow> bool" where
  "number_less NaN b = False"
| "number_less a NaN = False"
| "number_less NegInfinity NegInfinity = False"
| "number_less NegInfinity b = True"
| "number_less a NegInfinity = False"
| "number_less PosInfinity b = False"
| "number_less (Finite x) PosInfinity = True"
| "number_less (Finite x) (Finite y) = (x < y)"

text \<open>
  \<open>Math.max(...xs)\<close> as ECMAScript defines it: \<open>highest\<close> starts at \<open>-Infinity\<close>; the
  arguments are visited in order; a \<open>NaN\<close> argument makes the result \<open>NaN\<close> at once, an
  argument greater than \<open>highest\<close> replaces it.
\<close>

fun maxLoop :: "Number \<Rightarrow> Number list \<Rightarrow> Number" where
  "maxLoop highest [] = highest"
| "maxLoop highest (x # xs) =
     (if x = NaN then NaN
      else if number_less highest x then maxLoop x xs
      else maxLoop highest xs)"

definition Math_max :: "Number list \<Rightarrow> Number" where
  "Math_max xs = maxLoop NegInfinity xs"

text \<open>
  The conversion of a number to a string, which the template literals apply to weights
  and reps (shortest round-trip digits, exponent notation from \<open>1e21\<close>, \<open>NaN\<close>,
  \<open>Infinity\<close>), is a built-in of the language and a parameter \<open>numberToString\<close> of the
  gateway. What the properties below need of it is written as a hypothesis: an integer
  of magnitude up to \<open>2^53\<close> is printed in plain decimal.
\<close>

definition printsSafeIntegers :: "(Number \<Rightarrow> string) \<Rightarrow> bool" where
  "printsSafeIntegers numberToString =
     (\<forall>i::int. \<bar>i\<bar> \<le> 2 ^ 53 \<longrightarrow> numberToString (Finite (of_int i)) = string_of_int i)"

text \<open>\<open>Array.prototype.join\<close>.\<close>

fun join :: "string \<Rightarrow> string list \<Rightarrow> string" where
  "join sep [] = []"
| "join sep [x] = x"
| "join sep (x # y # ys) = x @ sep @ join sep (y # ys)"

definition nl :: string where
  "nl = [CHR 0x0A]"

text \<open>The summary of one historical exercise: its set count and its maximum weight.\<close>

definition historyEntry :: "(Number \<Rightarrow> string) \<Rightarrow> Number Exercise \<Rightarrow> string" where
  "historyEntry numberToString h =
     string_of_nat (length (e_sets h)) @ '' sets, max weight '' @
     numberToString (Math_max (map s_weight (e_sets h))) @ ''kg''"

definition historyText :: "(Number \<Rightarrow> string) \<Rightarrow> Number Exercise list \<Rightarrow> string" where
  "historyText numberToString history =
     (if length history > 0
      then ''Previous performance: '' @
           join ''; '' (map (historyEntry numberToString) history) @ ''.''
      else ''No previous history.'')"

definition currentPerformance :: "(Number \<Rightarrow> string) \<Rightarrow> Number Exercise \<Rightarrow> string" where
  "currentPerformance numberToString exercise =
     ''Current sets: '' @
     join '', '' (map (\<lambda>s. numberToString (s_weight s) @ ''kg x '' @ numberToString (s_reps s))
                     (e_sets exercise)) @ ''.''"

definition advicePrompt ::
  "(Number \<Rightarrow> string) \<Rightarrow> Number Exercise \<Rightarrow> Number Exercise list \<Rightarrow> string" where
  "advicePrompt numberToString exercise history =
     nl @ ''      You are an expert strength and conditioning coach. '' @
     nl @ ''      The user is currently performing: '' @ e_name exercise @ ''.'' @
     nl @ ''      '' @ historyText numberToString history @
     nl @ ''      '' @ currentPerformance numberToString exercise @
     nl @ ''      '' @
     nl @ ''      Give one short, actionable tip (max 20 words) to improve their form or intensity for the next set. Be motivating.'' @
     nl @ ''    ''"

text \<open>
  \<open>getExerciseAdvice\<close> returns the advice and the lines it wrote with
  \<open>console.error\<close>. \<open>response.text || "Keep pushing!"\<close> replaces an undefined or empty
  text.
\<close>

definition getExerciseAdvice ::
  "(Number \<Rightarrow> string) \<Rightarrow> string \<Rightarrow> Endpoint \<Rightarrow> Number Exercise \<Rightarrow> Number Exercise list
     \<Rightarrow> string \<times> string list" where
  "getExerciseAdvice numberToString apiKey generateContent exercise history =
     (if apiKey = [] then (''AI insights require an API Key.'', [])
      else
        (case generateContent (advicePrompt numberToString exercise history) of
           Throws err \<Rightarrow> (''Focus on your form and breathing.'', [''Gemini API Error: '' @ err])
         | Responds None \<Rightarrow> (''Keep pushing!'', [])
         | Responds (Some t) \<Rightarrow> (if t = [] then ''Keep pushing!'' else t, [])))"

definition summaryPrompt :: "string \<Rightarrow> nat \<Rightarrow> 'n Exercise list \<Rightarrow> string" where
  "summaryPrompt workoutName duration exercises =
     nl @ ''      Analyze this workout session:'' @
     nl @ ''      Type: '' @ workoutName @
     nl @ ''      Duration: '' @ string_of_nat (duration div 60) @ '' minutes'' @
     nl @ ''      Exercises: '' @
       join '', '' (map (\<lambda>e. e_name e @ '' ('' @ string_of_nat (length (e_sets e)) @ '' sets)'')
                       exercises) @ ''.'' @
     nl @ ''      '' @
     nl @ ''      Provide a 2-sentence summary of the effort and a suggestion for recovery.'' @
     nl @ ''     ''"

definition getWorkoutSummaryAnalysis ::
  "string \<Rightarrow> Endpoint \<Rightarrow> string \<Rightarrow> nat \<Rightarrow> 'n Exercise list \<Rightarrow> string" where
  "getWorkoutSummaryAnalysis apiKey generateContent workoutName duration exercises =
     (if apiKey = [] then ''Great workout!''
      else
        (case generateContent (summaryPrompt workoutName duration exercises) of
           Throws err \<Rightarrow> ''Great effort today!''
         | Responds None \<Rightarrow> ''Good job completing your session.''
         | Responds (Some t) \<Rightarrow> (if t = [] then ''Good job completing your session.'' else t)))"

section \<open>Session store (App.tsx)\<close>

text \<open>
  The state of the \<open>App\<close> component that the handlers read and write, and the console.
  \<open>generateId()\<close> draws a random identifier and \<open>new Date().toISOString()\<close> reads the
  clock: both are parameters of the handler that uses them.
\<close>

record 'n State =
  workouts :: "'n Workout list"
  activeWorkout :: "'n Workout option"
  elapsedTime :: nat
  aiTip :: "string option"
  loadingTip :: bool
  currentView :: ViewState
  console :: "string list"

definition startWorkout :: "string \<Rightarrow> string \<Rightarrow> string \<Rightarrow> 'n State \<Rightarrow> 'n State" where
  "startWorkout type newId now st =
     st\<lparr>activeWorkout :=
          Some \<lparr>w_id = newId, w_name = type, w_date = now, w_exercises = [],
                w_status = Active, w_durationSeconds = 0\<rparr>,
        elapsedTime := 0,
        currentView := ACTIVE_WORKOUT,
        aiTip := None\<rparr>"

definition addExercise :: "string \<Rightarrow> string \<Rightarrow> string \<Rightarrow> ('n::zero) State \<Rightarrow> 'n State" where
  "addExercise name exId setId st =
     (case activeWorkout st of
        None \<Rightarrow> st
      | Some w \<Rightarrow>
          st\<lparr>activeWorkout := Some (w\<lparr>w_exercises := w_exercises w @
             [\<lparr>e_id = exId, e_name = name,
               e_sets = [\<lparr>s_id = setId, s_weight = 0, s_reps = 0, s_completed = False\<rparr>]\<rparr>]\<rparr>)\<rparr>)"

definition setField :: "Field \<Rightarrow> 'n \<Rightarrow> 'n WorkoutSet \<Rightarrow> 'n WorkoutSet" where
  "setField field v s = (case field of Weight \<Rightarrow> s\<lparr>s_weight := v\<rparr> | Reps \<Rightarrow> s\<lparr>s_reps := v\<rparr>)"

definition updateSet :: "string \<Rightarrow> string \<Rightarrow> Field \<Rightarrow> 'n \<Rightarrow> 'n State \<Rightarrow> 'n State" where
  "updateSet exerciseId setId field v st =
     (case activeWorkout st of
        None \<Rightarrow> st
      | Some w \<Rightarrow>
          st\<lparr>activeWorkout := Some (w\<lparr>w_exercises :=
             map (\<lambda>ex. if e_id ex \<noteq> exerciseId then ex
                        else ex\<lparr>e_sets := map (\<lambda>s. if s_id s = setId then setField field v s else s)
                                               (e_sets ex)\<rparr>)
                 (w_exercises w)\<rparr>)\<rparr>)"

definition toggleSetComplete :: "string \<Rightarrow> string \<Rightarrow> 'n State \<Rightarrow> 'n State" where
  "toggleSetComplete exerciseId setId st =
     (case activeWorkout st of
        None \<Rightarrow> st
      | Some w \<Rightarrow>
          st\<lparr>activeWorkout := Some (w\<lparr>w_exercises :=
             map (\<lambda>ex. if e_id ex \<noteq> exerciseId then ex
                        else ex\<lparr>e_sets := map (\<lambda>s. if s_id s = setId
                                                      then s\<lparr>s_completed := \<not> s_completed s\<rparr> else s)
                                               (e_sets ex)\<rparr>)
                 (w_exercises w)\<rparr>)\<rparr>)"

definition addSet :: "string \<Rightarrow> 'n WorkoutSet \<Rightarrow> string \<Rightarrow> 'n State \<Rightarrow> 'n State" where
  "addSet exerciseId previousSet newId st =
     (case activeWorkout st of
        None \<Rightarrow> st
      | Some w \<Rightarrow>
          st\<lparr>activeWorkout := Some (w\<lparr>w_exercises :=
             map (\<lambda>ex. if e_id ex \<noteq> exerciseId then ex
                        else ex\<lparr>e_sets := e_sets ex @
                               [\<lparr>s_id = newId, s_weight = s_weight previousSet,
                                 s_reps = s_reps previousSet, s_completed = False\<rparr>]\<rparr>)
                 (w_exercises w)\<rparr>)\<rparr>)"

definition removeSet :: "string \<Rightarrow> string \<Rightarrow> 'n State \<Rightarrow> 'n State" where
  "removeSet exerciseId setId st =
     (case activeWorkout st of
        None \<Rightarrow> st
      | Some w \<Rightarrow>
          st\<lparr>activeWorkout := Some (w\<lparr>w_exercises :=
             map (\<lambda>ex. if e_id ex \<noteq> exerciseId then ex
                        else ex\<lparr>e_sets := filter (\<lambda>s. s_id s \<noteq> setId) (e_sets ex)\<rparr>)
                 (w_exercises w)\<rparr>)\<rparr>)"

text \<open>
  \<open>finishWorkout\<close> awaits the summary of the gateway, logs it, and only then writes the
  state. The duration is the store's own \<open>elapsedTime\<close>.
\<close>

definition finishWorkout :: "string \<Rightarrow> Endpoint \<Rightarrow> 'n State \<Rightarrow> 'n State" where
  "finishWorkout apiKey generateContent st =
     (case activeWorkout st of
        None \<Rightarrow> st
      | Some w \<Rightarrow>
          (let completedWorkout = w\<lparr>w_status := Completed, w_durationSeconds := elapsedTime st\<rparr>;
               summary = getWorkoutSummaryAnalysis apiKey generateContent
                           (w_name completedWorkout) (elapsedTime st) (w_exercises completedWorkout)
           in st\<lparr>console := console st @ [''AI Summary: '' @ summary],
                 workouts := completedWorkout # workouts st,
                 activeWorkout := None,
                 currentView := DASHBOARD\<rparr>))"

text \<open>\<open>confirmed\<close> is the answer of \<open>window.confirm\<close>.\<close>

definition cancelWorkout :: "bool \<Rightarrow> 'n State \<Rightarrow> 'n State" where
  "cancelWorkout confirmed st =
     (if confirmed then st\<lparr>activeWorkout := None, currentView := DASHBOARD\<rparr> else st)"

text \<open>The one-second tick of the timer, which runs while a workout is active.\<close>

definition tick :: "'n State \<Rightarrow> 'n State" where
  "tick st = (if activeWorkout st \<noteq> None then st\<lparr>elapsedTime := elapsedTime st + 1\<rparr> else st)"

text \<open>
  \<open>String.prototype.toLowerCase\<close> is a built-in of the language that folds every cased
  letter of Unicode; it is a parameter \<open>toLowerCase\<close> of the functions that call it. On
  text made of ASCII characters it moves the letters \<open>A\<close> to \<open>Z\<close> to \<open>a\<close> to \<open>z\<close> and
  leaves every other character, which is what \<open>foldsAscii\<close> says of the parameter.
\<close>

definition lower_char :: "char \<Rightarrow> char" where
  "lower_char c =
     (if 65 \<le> (of_char c :: nat) \<and> (of_char c :: nat) \<le> 90 then char_of (of_char c + 32 :: nat) else c)"

definition asciiLower :: "string \<Rightarrow> string" where
  "asciiLower s = map lower_char s"

definition asciiString :: "string \<Rightarrow> bool" where
  "asciiString s = list_all (\<lambda>c. (of_char c :: nat) < 128) s"

definition foldsAscii :: "(string \<Rightarrow> string) \<Rightarrow> bool" where
  "foldsAscii toLowerCase = (\<forall>s. asciiString s \<longrightarrow> toLowerCase s = asciiLower s)"

text \<open>The history handed to the gateway by \<open>requestAiAdvice\<close>.\<close>

definition adviceHistory ::
  "(string \<Rightarrow> string) \<Rightarrow> 'n Workout list \<Rightarrow> 'n Exercise \<Rightarrow> 'n Exercise list" where
  "adviceHistory toLowerCase ws exercise =
     take 5 (filter (\<lambda>e. toLowerCase (e_name e) = toLowerCase (e_name exercise))
                    (concat (map w_exercises ws)))"

text \<open>
  \<open>requestAiAdvice\<close> sets \<open>loadingTip\<close>, awaits the advice and then stores the tip and
  clears \<open>loadingTip\<close>; the state after the call is modelled.
\<close>

definition requestAiAdvice ::
  "(string \<Rightarrow> string) \<Rightarrow> (Number \<Rightarrow> string) \<Rightarrow> string \<Rightarrow> Endpoint \<Rightarrow> Number Exercise
     \<Rightarrow> Number State \<Rightarrow> Number State" where
  "requestAiAdvice toLowerCase numberToString apiKey generateContent exercise st =
     (let (advice, logged) =
            getExerciseAdvice numberToString apiKey generateContent exercise
              (adviceHistory toLowerCase (workouts st) exercise)
      in st\<lparr>console := console st @ logged,
            aiTip := Some (e_name exercise @ '': '' @ advice),
            loadingTip := False\<rparr>)"

section \<open>Views (App.tsx)\<close>

text \<open>\<open>HistoryView\<close>: the workouts in the order their cards are rendered.\<close>

definition HistoryView :: "'n Workout list \<Rightarrow> 'n Workout list" where
  "HistoryView ws = (if length ws = 0 then [] else rev ws)"

text \<open>
  \<open>ActiveWorkoutView\<close>: the delete button of a set is rendered only when
  \<open>exercise.sets.length > 1\<close> ("Only show delete if not the only set").
\<close>

definition showDelete :: "'n Exercise \<Rightarrow> bool" where
  "showDelete exercise = (length (e_sets exercise) > 1)"

text \<open>
  The Add Set button calls \<open>onAddSet(exercise.id, exercise.sets[exercise.sets.length - 1])\<close>.
  On an exercise without sets the second argument is \<open>undefined\<close>, and \<open>addSet\<close> then
  throws a \<open>TypeError\<close> when it reads \<open>previousSet.weight\<close> for an exercise of that id.
\<close>

datatype Error = TypeError

definition clickAddSet :: "'n Exercise \<Rightarrow> string \<Rightarrow> 'n State \<Rightarrow> Error + 'n State" where
  "clickAddSet exercise newId st =
     (case e_sets exercise of
        [] \<Rightarrow>
          (case activeWorkout st of
             None \<Rightarrow> Inr st
           | Some w \<Rightarrow>
               if list_ex (\<lambda>ex. e_id ex = e_id exercise) (w_exercises w) then Inl TypeError
               else Inr st)
      | _ # _ \<Rightarrow> Inr (addSet (e_id exercise) (last (e_sets exercise)) newId st))"

text \<open>
  What a user can do to the sets of the rendered workout: press Add Set on the \<open>i\<close>-th
  exercise (the string is the identifier \<open>generateId()\<close> then draws), or press the
  delete button of the \<open>j\<close>-th set of the \<open>i\<close>-th exercise. A control that is not
  rendered cannot be pressed: the state stays as it is.
\<close>

datatype ViewAction = AddSetClick nat string | RemoveSetClick nat nat

fun click :: "ViewAction \<Rightarrow> 'n State \<Rightarrow> Error + 'n State" where
  "click (AddSetClick i newId) st =
     (case activeWorkout st of
        None \<Rightarrow> Inr st
      | Some w \<Rightarrow>
          if i < length (w_exercises w) then clickAddSet (w_exercises w ! i) newId st
          else Inr st)"
| "click (RemoveSetClick i j) st =
     (case activeWorkout st of
        None \<Rightarrow> Inr st
      | Some w \<Rightarrow>
          if i < length (w_exercises w) \<and> j < length (e_sets (w_exercises w ! i))
             \<and> showDelete (w_exercises w ! i)
          then Inr (removeSet (e_id (w_exercises w ! i)) (s_id (e_sets (w_exercises w ! i) ! j)) st)
          else Inr st)"

fun run :: "ViewAction list \<Rightarrow> 'n State \<Rightarrow> Error + 'n State" where
  "run [] st = Inr st"
| "run (a # as) st = (case click a st of Inl e \<Rightarrow> Inl e | Inr st' \<Rightarrow> run as st')"

text \<open>
  Identifiers identify: the exercises of a workout have different ids, and so have the
  sets of one exercise; every exercise has a set.
\<close>

definition wellFormed :: "'n Workout \<Rightarrow> bool" where
  "wellFormed w =
     (distinct (map e_id (w_exercises w)) \<and>
      list_all (\<lambda>ex. e_sets ex \<noteq> [] \<and> distinct (map s_id (e_sets ex))) (w_exercises w))"

text \<open>The identifier drawn for a new set is not the id of a set of the active workout.\<close>

fun freshId :: "ViewAction \<Rightarrow> 'n State \<Rightarrow> bool" where
  "freshId (AddSetClick i newId) st =
     (case activeWorkout st of
        None \<Rightarrow> True
      | Some w \<Rightarrow> newId \<notin> set (map s_id (concat (map e_sets (w_exercises w)))))"
| "freshId (RemoveSetClick i j) st = True"

fun freshIds :: "ViewAction list \<Rightarrow> 'n State \<Rightarrow> bool" where
  "freshIds [] st = True"
| "freshIds (a # as) st =
     (freshId a st \<and> (case click a st of Inl e \<Rightarrow> True | Inr st' \<Rightarrow> freshIds as st'))"

section \<open>The operations of the store as one step function\<close>

datatype 'n Operation =
    StartWorkout string string string
  | AddExercise string string string
  | UpdateSet string string Field 'n
  | ToggleSetComplete string string
  | AddSet string "'n WorkoutSet" string
  | RemoveSet string string
  | FinishWorkout string Endpoint
  | CancelWorkout bool
  | Tick

fun perform :: "('n::zero) Operation \<Rightarrow> 'n State \<Rightarrow> 'n State" where
  "perform (StartWorkout type newId now) st = startWorkout type newId now st"
| "perform (AddExercise name exId setId) st = addExercise name exId setId st"
| "perform (UpdateSet exerciseId setId field v) st = updateSet exerciseId setId field v st"
| "perform (ToggleSetComplete exerciseId setId) st = toggleSetComplete exerciseId setId st"
| "perform (AddSet exerciseId previousSet newId) st = addSet exerciseId previousSet newId st"
| "perform (RemoveSet exerciseId setId) st = removeSet exerciseId setId st"
| "perform (FinishWorkout apiKey generateContent) st = finishWorkout apiKey generateContent st"
| "perform (CancelWorkout confirmed) st = cancelWorkout confirmed st"
| "perform Tick st = tick st"

fun performAll :: "('n::zero) Operation list \<Rightarrow> 'n State \<Rightarrow> 'n State" where
  "performAll [] st = st"
| "performAll (op # ops) st = performAll ops (perform op st)"

section \<open>Example states\<close>

definition benchSets :: "int WorkoutSet list" where
  "benchSets =
     [\<lparr>s_id = ''s1'', s_weight = 60, s_reps = 10, s_completed = True\<rparr>,
      \<lparr>s_id = ''s2'', s_weight = 70, s_reps = 8, s_completed = True\<rparr>,
      \<lparr>s_id = ''s3'', s_weight = 80, s_reps = 5, s_completed = True\<rparr>]"

definition benchPress :: "int Exercise" where
  "benchPress = \<lparr>e_id = ''e1'', e_name = ''Bench Press'', e_sets = benchSets\<rparr>"

definition chestDay :: "int Workout" where
  "chestDay =
     \<lparr>w_id = ''w1'', w_name = ''Chest Day'', w_date = ''2024-01-01T10:00:00.000Z'',
      w_exercises = [benchPress], w_status = Completed, w_durationSeconds = 1800\<rparr>"

definition squat :: "int Exercise" where
  "squat =
     \<lparr>e_id = ''e2'', e_name = ''Squat'',
      e_sets = [\<lparr>s_id = ''s4'', s_weight = 100, s_reps = 5, s_completed = False\<rparr>]\<rparr>"

definition legDay :: "int Workout" where
  "legDay =
     \<lparr>w_id = ''w2'', w_name = ''Leg Day'', w_date = ''2024-01-02T10:00:00.000Z'',
      w_exercises = [squat], w_status = Active, w_durationSeconds = 0\<rparr>"

definition idle :: "int State" where
  "idle =
     \<lparr>workouts = [chestDay], activeWorkout = None, elapsedTime = 0, aiTip = None,
      loadingTip = False, currentView = DASHBOARD, console = []\<rparr>"

definition training :: "int State" where
  "training =
     \<lparr>workouts = [chestDay], activeWorkout = Some legDay, elapsedTime = 600, aiTip = None,
      loadingTip = False, currentView = ACTIVE_WORKOUT, console = []\<rparr>"

text \<open>Two sessions finished one after the other: Leg Day first, Back Day second.\<close>

definition twoFinished :: "int State" where
  "twoFinished =
     finishWorkout [] (\<lambda>p. Responds None)
       (startWorkout ''Back Day'' ''w3'' ''2024-01-03T10:00:00.000Z''
          (finishWorkout [] (\<lambda>p. Responds None) training))"

text \<open>
  Examples for the gateway, with weights of type \<open>Number\<close>: a stored Bench Press with
  sets of 60, 70 and 80, and a current exercise whose name differs from the stored one
  only in the case of letters.
\<close>

definition priorBench :: "Number Exercise" where
  "priorBench =
     \<lparr>e_id = ''e1'', e_name = ''Bench Press'',
      e_sets =
        [\<lparr>s_id = ''s1'', s_weight = Finite 60, s_reps = Finite 10, s_completed = True\<rparr>,
         \<lparr>s_id = ''s2'', s_weight = Finite 70, s_reps = Finite 8, s_completed = True\<rparr>,
         \<lparr>s_id = ''s3'', s_weight = Finite 80, s_reps = Finite 5, s_completed = True\<rparr>]\<rparr>"

definition priorChestDay :: "Number Workout" where
  "priorChestDay =
     \<lparr>w_id = ''w1'', w_name = ''Chest Day'', w_date = ''2024-01-01T10:00:00.000Z'',
      w_exercises = [priorBench], w_status = Completed, w_durationSeconds = 1800\<rparr>"

definition currentBench :: "Number Exercise" where
  "currentBench =
     \<lparr>e_id = ''e5'', e_name = ''BENCH press'',
      e_sets = [\<lparr>s_id = ''s6'', s_weight = Finite 85, s_reps = Finite 5, s_completed = False\<rparr>]\<rparr>"

text \<open>
  An instance of the parameter \<open>numberToString\<close> for the examples. It prints \<open>NaN\<close>, the
  infinities and the integers as JavaScript does; the examples print no other number
  (of a fraction it prints the integer part, which JavaScript does not).
\<close>

definition printInteger :: "Number \<Rightarrow> string" where
  "printInteger n =
     (case n of
        NaN \<Rightarrow> ''NaN''
      | NegInfinity \<Rightarrow> ''-Infinity''
      | PosInfinity \<Rightarrow> ''Infinity''
      | Finite r \<Rightarrow> string_of_int \<lfloor>r\<rfloor>)"

text \<open>
  One session in which Bench Press is added six times and which is then finished:
  \<open>a1\<close> is the first exercise performed, \<open>a6\<close> the last.
\<close>

definition emptyStore :: "Number State" where
  "emptyStore =
     \<lparr>workouts = [], activeWorkout = None, elapsedTime = 0, aiTip = None,
      loadingTip = False, currentView = DASHBOARD, console = []\<rparr>"

definition sixBenchSession :: "Number State" where
  "sixBenchSession =
     performAll
       [StartWorkout ''Chest Day'' ''w9'' ''2024-01-05T10:00:00.000Z'',
        AddExercise ''Bench Press'' ''a1'' ''t1'', AddExercise ''Bench Press'' ''a2'' ''t2'',
        AddExercise ''Bench Press'' ''a3'' ''t3'', AddExercise ''Bench Press'' ''a4'' ''t4'',
        AddExercise ''Bench Press'' ''a5'' ''t5'', AddExercise ''Bench Press'' ''a6'' ''t6'',
        FinishWorkout [] (\<lambda>p. Responds None)]
       emptyStore"

text \<open>
  The selection as the specification words it, for comparison with \<open>adviceHistory\<close>:
  the matching exercises of the history with the most recent first (the history has the
  newest workout first, and within a workout a later exercise is more recent than an
  earlier one), and of these the most recent five.
\<close>

definition spec_mostRecentFive ::
  "(string \<Rightarrow> string) \<Rightarrow> 'n Workout list \<Rightarrow> 'n Exercise \<Rightarrow> 'n Exercise list" where
  "spec_mostRecentFive toLowerCase ws exercise =
     take 5 (filter (\<lambda>e. toLowerCase (e_name e) = toLowerCase (e_name exercise))
                    (concat (map (\<lambda>w. rev (w_exercises w)) ws)))"

text \<open>
  Two ASCII names are the same up to the case of letters when they have the same
  length and at every position either the same character or the capital and the small
  form of one letter.
\<close>

definition sameUpToCase :: "string \<Rightarrow> string \<Rightarrow> bool" where
  "sameUpToCase s t =
     list_all2 (\<lambda>a b. a = b \<or>
                  (65 \<le> (of_char a :: nat) \<and> (of_char a :: nat) \<le> 90 \<and> b = lower_char a) \<or>
                  (65 \<le> (of_char b :: nat) \<and> (of_char b :: nat) \<le> 90 \<and> a = lower_char b)) s t"

section \<open>Properties of the store, the gateway and the views\<close>

subsection \<open>Completion toggle\<close>

lemma toggle_set_invol:
  "(\<lambda>s. if s_id s = sid then s\<lparr>s_completed := \<not> s_completed s\<rparr> else s) \<circ>
   (\<lambda>s. if s_id s = sid then s\<lparr>s_completed := \<not> s_completed s\<rparr> else s) = id"
  by (auto simp: fun_eq_iff)

lemma toggle_exercise_invol:
  "(\<lambda>ex. if e_id ex \<noteq> eid then ex
          else ex\<lparr>e_sets := map (\<lambda>s. if s_id s = sid then s\<lparr>s_completed := \<not> s_completed s\<rparr> else s) (e_sets ex)\<rparr>) \<circ>
   (\<lambda>ex. if e_id ex \<noteq> eid then ex
          else ex\<lparr>e_sets := map (\<lambda>s. if s_id s = sid then s\<lparr>s_completed := \<not> s_completed s\<rparr> else s) (e_sets ex)\<rparr>) = id"
  by (auto simp: fun_eq_iff toggle_set_invol)

lemma toggle_twice_state: "toggleSetComplete e s (toggleSetComplete e s st) = st"
  by (cases "activeWorkout st") (simp_all add: toggleSetComplete_def toggle_exercise_invol)

lemma toggle_flips:
  assumes "activeWorkout st = Some w" "i < length (w_exercises w)"
    "j < length (e_sets (w_exercises w ! i))" "e_id (w_exercises w ! i) = exerciseId"
    "s_id (e_sets (w_exercises w ! i) ! j) = setId"
  shows "\<exists>w'. activeWorkout (toggleSetComplete exerciseId setId st) = Some w' \<and>
     s_completed (e_sets (w_exercises w' ! i) ! j) = (\<not> s_completed (e_sets (w_exercises w ! i) ! j))"
  using assms by (simp add: toggleSetComplete_def)

text \<open>
  C8. For every state, exercise id and set id, applying \<open>toggleSetComplete\<close> twice gives
  back the state it started from, so every set has its original completed flag again;
  and one application flips the flag of a set that the two ids name.
\<close>

theorem toggleSetComplete_twice:
  "toggleSetComplete exerciseId setId (toggleSetComplete exerciseId setId st) = st \<and>
   (\<forall>w i j. activeWorkout st = Some w \<and> i < length (w_exercises w) \<and>
       j < length (e_sets (w_exercises w ! i)) \<and> e_id (w_exercises w ! i) = exerciseId \<and>
       s_id (e_sets (w_exercises w ! i) ! j) = setId \<longrightarrow>
       (\<exists>w'. activeWorkout (toggleSetComplete exerciseId setId st) = Some w' \<and>
          s_completed (e_sets (w_exercises w' ! i) ! j) =
            (\<not> s_completed (e_sets (w_exercises w ! i) ! j))))"
  using toggle_twice_state toggle_flips by blast

theorem toggleSetComplete_twice_witness:
  "toggleSetComplete ''e2'' ''s4'' (toggleSetComplete ''e2'' ''s4'' training) = training \<and>
   activeWorkout training = Some legDay \<and>
   e_id (w_exercises legDay ! 0) = ''e2'' \<and> s_id (e_sets (w_exercises legDay ! 0) ! 0) = ''s4'' \<and>
   \<not> s_completed (e_sets (w_exercises legDay ! 0) ! 0) \<and>
   (\<exists>w'. activeWorkout (toggleSetComplete ''e2'' ''s4'' training) = Some w' \<and>
      s_completed (e_sets (w_exercises w' ! 0) ! 0))"
proof -
  have a: "activeWorkout training = Some legDay"
    by (simp add: training_def)
  have b: "e_id (w_exercises legDay ! 0) = ''e2'' \<and> s_id (e_sets (w_exercises legDay ! 0) ! 0) = ''s4''
      \<and> \<not> s_completed (e_sets (w_exercises legDay ! 0) ! 0)
      \<and> 0 < length (w_exercises legDay) \<and> 0 < length (e_sets (w_exercises legDay ! 0))"
    by (simp add: legDay_def squat_def)
  from toggleSetComplete_twice [of "''e2''" "''s4''" training] a b show ?thesis
    by blast
qed

subsection \<open>Finishing a session\<close>

text \<open>
  C3. In every state with an active workout, \<open>finishWorkout\<close> empties the active slot
  and puts exactly one more entry in front of the history: the former active workout
  with status completed and the elapsed seconds of the store as its duration. This holds
  for every credential and every behaviour of the endpoint; two runs that differ only in
  the gateway differ only in the line that is logged.
\<close>

theorem finishWorkout_postcondition:
  "activeWorkout st = Some w \<Longrightarrow>
     activeWorkout (finishWorkout apiKey generateContent st) = None \<and>
     workouts (finishWorkout apiKey generateContent st) =
       w\<lparr>w_status := Completed, w_durationSeconds := elapsedTime st\<rparr> # workouts st \<and>
     length (workouts (finishWorkout apiKey generateContent st)) = length (workouts st) + 1 \<and>
     finishWorkout apiKey generateContent st =
       (finishWorkout apiKey' generateContent' st)
         \<lparr>console := console (finishWorkout apiKey generateContent st)\<rparr>"
  by (simp add: finishWorkout_def Let_def)

theorem finishWorkout_postcondition_witness:
  "activeWorkout training = Some legDay \<and>
   activeWorkout (finishWorkout ''key'' (\<lambda>p. Throws ''offline'') training) = None \<and>
   workouts (finishWorkout ''key'' (\<lambda>p. Throws ''offline'') training) =
     [legDay\<lparr>w_status := Completed, w_durationSeconds := 600\<rparr>, chestDay]"
proof -
  have a: "activeWorkout training = Some legDay"
    by (simp add: training_def)
  from finishWorkout_postcondition [OF a, of "''key''" "\<lambda>p. Throws ''offline''"] a
  show ?thesis by (simp add: training_def)
qed

text \<open>
  C2. \<open>finishWorkout\<close> prepends, so the stored list has the most recently completed
  workout first; \<open>HistoryView\<close> renders the reversed list, which shows the oldest
  workout first and the most recently completed one last.
\<close>

theorem HistoryView_oldest_first:
  "map w_name (workouts twoFinished) = [''Back Day'', ''Leg Day'', ''Chest Day''] \<and>
   map w_name (HistoryView (workouts twoFinished)) = [''Chest Day'', ''Leg Day'', ''Back Day'']"
  by (simp add: twoFinished_def finishWorkout_def startWorkout_def training_def HistoryView_def
      legDay_def chestDay_def Let_def)

subsection \<open>Fallbacks of the gateway\<close>

text \<open>
  C5. Without a credential (the variable unset or empty) \<open>getExerciseAdvice\<close> and
  \<open>getWorkoutSummaryAnalysis\<close> return their static fallback strings whatever the
  endpoint would do; when the endpoint throws, each returns another static string
  and nothing is raised; the four strings are different from each other.
\<close>

theorem gateway_fallbacks:
  "getExerciseAdvice numberToString (apiKey_of None) generateContent exercise history =
     (''AI insights require an API Key.'', []) \<and>
   getExerciseAdvice numberToString [] generateContent exercise history =
     (''AI insights require an API Key.'', []) \<and>
   getWorkoutSummaryAnalysis (apiKey_of None) generateContent workoutName duration exercises =
     ''Great workout!'' \<and>
   getWorkoutSummaryAnalysis [] generateContent workoutName duration exercises =
     ''Great workout!'' \<and>
   (apiKey \<noteq> [] \<and>
      generateContent (advicePrompt numberToString exercise history) = Throws err \<longrightarrow>
      fst (getExerciseAdvice numberToString apiKey generateContent exercise history) =
        ''Focus on your form and breathing.'') \<and>
   (apiKey \<noteq> [] \<and> generateContent (summaryPrompt workoutName duration exercises) = Throws err \<longrightarrow>
      getWorkoutSummaryAnalysis apiKey generateContent workoutName duration exercises =
        ''Great effort today!'') \<and>
   distinct [''AI insights require an API Key.'', ''Great workout!'',
             ''Focus on your form and breathing.'', ''Great effort today!'']"
  by (simp add: getExerciseAdvice_def getWorkoutSummaryAnalysis_def apiKey_of_def)

theorem gateway_fallbacks_witness:
  "fst (getExerciseAdvice printInteger ''key'' (\<lambda>p. Throws ''offline'') currentBench [priorBench]) =
     ''Focus on your form and breathing.'' \<and>
   getWorkoutSummaryAnalysis ''key'' (\<lambda>p. Throws ''offline'') ''Leg Day'' 600 [squat] =
     ''Great effort today!''"
  using gateway_fallbacks [of printInteger "\<lambda>p. Throws ''offline''" currentBench "[priorBench]"
      "''Leg Day''" 600 "[squat]" "''key''" "''offline''"]
  by simp

subsection \<open>Every exercise keeps a set\<close>

lemma e_id_if:
  "e_id (if c then ex else ex\<lparr>e_sets := ss\<rparr>) = e_id ex"
  by simp

lemma same_id_same_element:
  "distinct (map f xs) \<Longrightarrow> x \<in> set xs \<Longrightarrow> y \<in> set xs \<Longrightarrow> f x = f y \<Longrightarrow> x = y"
  by (simp add: distinct_map inj_on_def)

lemma filter_other_ids_length:
  "distinct (map s_id xs) \<Longrightarrow> x \<in> set xs \<Longrightarrow>
     Suc (length (filter (\<lambda>s. s_id s \<noteq> s_id x) xs)) = length xs"
proof (induction xs)
  case Nil
  then show ?case by simp
next
  case (Cons a xs)
  show ?case
  proof (cases "x = a")
    case True
    have "s_id a \<notin> set (map s_id xs)"
      using Cons.prems(1) by simp
    then have "\<forall>s\<in>set xs. s_id s \<noteq> s_id a"
      by (metis imageI set_map)
    then have "filter (\<lambda>s. s_id s \<noteq> s_id a) xs = xs"
      by (simp add: filter_id_conv)
    with True show ?thesis by simp
  next
    case False
    with Cons.prems have in_xs: "x \<in> set xs" by simp
    then have "s_id a \<noteq> s_id x"
      using Cons.prems(1) by auto
    with Cons.IH in_xs Cons.prems(1) show ?thesis by simp
  qed
qed

lemma removeSet_keeps_wellFormed:
  assumes wf: "wellFormed w"
    and i: "i < length (w_exercises w)"
    and j: "j < length (e_sets (w_exercises w ! i))"
    and guard: "showDelete (w_exercises w ! i)"
  shows "wellFormed (w\<lparr>w_exercises :=
           map (\<lambda>ex. if e_id ex \<noteq> e_id (w_exercises w ! i) then ex
                      else ex\<lparr>e_sets := filter (\<lambda>s. s_id s \<noteq> s_id (e_sets (w_exercises w ! i) ! j))
                                                (e_sets ex)\<rparr>)
               (w_exercises w)\<rparr>)"
proof -
  let ?exs = "w_exercises w"
  let ?x = "?exs ! i"
  let ?s = "e_sets ?x ! j"
  have dist: "distinct (map e_id ?exs)"
    and each: "\<forall>ex\<in>set ?exs. e_sets ex \<noteq> [] \<and> distinct (map s_id (e_sets ex))"
    using wf by (simp_all add: wellFormed_def list_all_iff)
  have x_in: "?x \<in> set ?exs" using i by simp
  have s_in: "?s \<in> set (e_sets ?x)" using j by simp
  have "Suc (length (filter (\<lambda>s. s_id s \<noteq> s_id ?s) (e_sets ?x))) = length (e_sets ?x)"
    using each x_in s_in by (simp add: filter_other_ids_length)
  with guard have rest: "filter (\<lambda>s. s_id s \<noteq> s_id ?s) (e_sets ?x) \<noteq> []"
    by (auto simp: showDelete_def)
  have "e_sets ex \<noteq> [] \<and> distinct (map s_id (e_sets ex)) \<and>
        (e_id ex = e_id ?x \<longrightarrow> filter (\<lambda>s. s_id s \<noteq> s_id ?s) (e_sets ex) \<noteq> [])"
    if "ex \<in> set ?exs" for ex
  proof -
    have "ex = ?x" if "e_id ex = e_id ?x"
      using same_id_same_element [OF dist \<open>ex \<in> set ?exs\<close> x_in that] .
    with rest each that show ?thesis by auto
  qed
  then show ?thesis
    using dist by (auto simp: wellFormed_def list_all_iff o_def e_id_if distinct_map_filter)
qed

lemma addSet_keeps_wellFormed:
  assumes wf: "wellFormed w"
    and fresh: "newId \<notin> set (map s_id (concat (map e_sets (w_exercises w))))"
  shows "wellFormed (w\<lparr>w_exercises :=
           map (\<lambda>ex. if e_id ex \<noteq> eid then ex
                      else ex\<lparr>e_sets := e_sets ex @
                             [\<lparr>s_id = newId, s_weight = s_weight p, s_reps = s_reps p,
                               s_completed = False\<rparr>]\<rparr>)
               (w_exercises w)\<rparr>)"
proof -
  have dist: "distinct (map e_id (w_exercises w))"
    and each: "\<forall>ex\<in>set (w_exercises w). e_sets ex \<noteq> [] \<and> distinct (map s_id (e_sets ex))"
    using wf by (simp_all add: wellFormed_def list_all_iff)
  have "\<forall>ex\<in>set (w_exercises w). newId \<notin> s_id ` set (e_sets ex)"
    using fresh by auto
  with dist each show ?thesis
    by (auto simp: wellFormed_def list_all_iff o_def e_id_if)
qed

lemma clickAddSet_nonempty:
  "e_sets exercise \<noteq> [] \<Longrightarrow>
     clickAddSet exercise newId st = Inr (addSet (e_id exercise) (last (e_sets exercise)) newId st)"
  by (cases "e_sets exercise") (simp_all add: clickAddSet_def)

lemma click_keeps_wellFormed:
  assumes "activeWorkout st = Some w" "wellFormed w" "freshId a st"
  shows "\<exists>st' w'. click a st = Inr st' \<and> activeWorkout st' = Some w' \<and> wellFormed w'"
proof (cases a)
  case (AddSetClick i newId)
  show ?thesis
  proof (cases "i < length (w_exercises w)")
    case True
    then have "e_sets (w_exercises w ! i) \<noteq> []"
      using assms(2) by (simp add: wellFormed_def list_all_length)
    with True AddSetClick assms show ?thesis
      using addSet_keeps_wellFormed [of w newId "e_id (w_exercises w ! i)"
          "last (e_sets (w_exercises w ! i))"]
      by (simp add: clickAddSet_nonempty addSet_def)
  next
    case False
    with AddSetClick assms show ?thesis by simp
  qed
next
  case (RemoveSetClick i j)
  with assms show ?thesis
    using removeSet_keeps_wellFormed [of w i j]
    by (simp add: removeSet_def)
qed

lemma run_keeps_wellFormed:
  "activeWorkout st = Some w \<Longrightarrow> wellFormed w \<Longrightarrow> freshIds acts st \<Longrightarrow>
     \<exists>st' w'. run acts st = Inr st' \<and> activeWorkout st' = Some w' \<and> wellFormed w'"
proof (induction acts arbitrary: st w)
  case Nil
  then show ?case by simp
next
  case (Cons a acts)
  from Cons.prems have fresh: "freshId a st" by simp
  from click_keeps_wellFormed [OF Cons.prems(1,2) fresh]
  obtain st1 w1 where step: "click a st = Inr st1" "activeWorkout st1 = Some w1" "wellFormed w1"
    by blast
  with Cons.prems(3) have "freshIds acts st1" by simp
  from Cons.IH [OF step(2,3) this] step(1) show ?case by simp
qed

lemma delete_hidden_for_only_set:
  "activeWorkout st = Some w \<Longrightarrow> i < length (w_exercises w) \<Longrightarrow>
   length (e_sets (w_exercises w ! i)) = 1 \<Longrightarrow> click (RemoveSetClick i j) st = Inr st"
  by (simp add: showDelete_def)

text \<open>
  C1. \<open>removeSet\<close> has no guard of its own: it removes every set of the exercise that
  has the given id, the only remaining one included. The guard is in the view, which
  renders the delete button only for an exercise with more than one set. For an active
  workout whose ids identify (different exercise ids, different set ids within an
  exercise, a set in every exercise), every sequence of Add Set and delete presses in
  the view, with identifiers for the new sets that are not in use, runs without error
  and leaves every exercise with at least one set; a delete press on the only set of an
  exercise changes nothing.
\<close>

theorem view_keeps_a_set:
  "(activeWorkout st = Some w \<and> wellFormed w \<and> freshIds acts st \<longrightarrow>
      (\<exists>st' w'. run acts st = Inr st' \<and> activeWorkout st' = Some w' \<and>
         list_all (\<lambda>ex. 1 \<le> length (e_sets ex)) (w_exercises w'))) \<and>
   (activeWorkout st = Some w \<and> i < length (w_exercises w) \<and>
      length (e_sets (w_exercises w ! i)) = 1 \<longrightarrow> click (RemoveSetClick i j) st = Inr st)"
proof -
  have "\<exists>st' w'. run acts st = Inr st' \<and> activeWorkout st' = Some w' \<and>
         list_all (\<lambda>ex. 1 \<le> length (e_sets ex)) (w_exercises w')"
    if "activeWorkout st = Some w" "wellFormed w" "freshIds acts st"
  proof -
    from run_keeps_wellFormed [OF that] obtain st' w'
      where r: "run acts st = Inr st'" "activeWorkout st' = Some w'" "wellFormed w'"
      by blast
    from r(3) have "list_all (\<lambda>ex. 1 \<le> length (e_sets ex)) (w_exercises w')"
      by (auto simp: wellFormed_def list_all_iff Suc_le_eq)
    with r show ?thesis by blast
  qed
  then show ?thesis
    using delete_hidden_for_only_set by blast
qed

theorem view_keeps_a_set_witness:
  "activeWorkout training = Some legDay \<and> wellFormed legDay \<and>
   freshIds [AddSetClick 0 ''n1'', RemoveSetClick 0 0, RemoveSetClick 0 0] training \<and>
   length (e_sets (w_exercises legDay ! 0)) = 1 \<and>
   click (RemoveSetClick 0 0) training = Inr training \<and>
   (\<exists>st' w'. run [AddSetClick 0 ''n1'', RemoveSetClick 0 0, RemoveSetClick 0 0] training = Inr st' \<and>
       activeWorkout st' = Some w' \<and> list_all (\<lambda>ex. 1 \<le> length (e_sets ex)) (w_exercises w'))"
proof -
  have a: "activeWorkout training = Some legDay"
    by (simp add: training_def)
  have b: "wellFormed legDay"
    by (simp add: wellFormed_def legDay_def squat_def)
  have c: "freshIds [AddSetClick 0 ''n1'', RemoveSetClick 0 0, RemoveSetClick 0 0] training"
    by (simp add: training_def legDay_def squat_def clickAddSet_def addSet_def removeSet_def
        showDelete_def)
  have d: "length (e_sets (w_exercises legDay ! 0)) = 1 \<and> 0 < length (w_exercises legDay)"
    by (simp add: legDay_def squat_def)
  from view_keeps_a_set [of training legDay
      "[AddSetClick 0 ''n1'', RemoveSetClick 0 0, RemoveSetClick 0 0]" 0 0] a b c d
  show ?thesis by blast
qed

text \<open>
  Called directly with the id of the only set of an exercise, \<open>removeSet\<close> is not a
  no-op: the exercise is left without a set.
\<close>

theorem removeSet_only_set_counterexample:
  "activeWorkout training = Some legDay \<and> w_exercises legDay = [squat] \<and>
   length (e_sets squat) = 1 \<and> s_id (e_sets squat ! 0) = ''s4'' \<and>
   removeSet (e_id squat) ''s4'' training \<noteq> training \<and>
   activeWorkout (removeSet (e_id squat) ''s4'' training) =
     Some (legDay\<lparr>w_exercises := [squat\<lparr>e_sets := []\<rparr>]\<rparr>)"
  by (simp add: removeSet_def training_def legDay_def squat_def)

subsection \<open>Mutations without a target\<close>

lemma map_sets_unmatched:
  "setId \<notin> set (map s_id xs) \<Longrightarrow> map (\<lambda>s. if s_id s = setId then f s else s) xs = xs"
  by (induction xs) auto

lemma filter_sets_unmatched:
  "setId \<notin> set (map s_id xs) \<Longrightarrow> filter (\<lambda>s. s_id s \<noteq> setId) xs = xs"
  by (induction xs) auto

lemma updateSet_unmatched:
  assumes "activeWorkout st = Some w"
    and "\<forall>ex\<in>set (w_exercises w). e_id ex = exerciseId \<longrightarrow> setId \<notin> set (map s_id (e_sets ex))"
  shows "updateSet exerciseId setId field v st = st"
proof -
  have "map (\<lambda>ex. if e_id ex \<noteq> exerciseId then ex
                  else ex\<lparr>e_sets := map (\<lambda>s. if s_id s = setId then setField field v s else s)
                                        (e_sets ex)\<rparr>) (w_exercises w) = w_exercises w"
    using assms(2) by (intro map_idI) (simp add: map_sets_unmatched)
  with assms(1) show ?thesis by (simp add: updateSet_def)
qed

lemma toggleSetComplete_unmatched:
  assumes "activeWorkout st = Some w"
    and "\<forall>ex\<in>set (w_exercises w). e_id ex = exerciseId \<longrightarrow> setId \<notin> set (map s_id (e_sets ex))"
  shows "toggleSetComplete exerciseId setId st = st"
proof -
  have "map (\<lambda>ex. if e_id ex \<noteq> exerciseId then ex
                  else ex\<lparr>e_sets := map (\<lambda>s. if s_id s = setId
                                                then s\<lparr>s_completed := \<not> s_completed s\<rparr> else s)
                                        (e_sets ex)\<rparr>) (w_exercises w) = w_exercises w"
    using assms(2) by (intro map_idI) (simp add: map_sets_unmatched)
  with assms(1) show ?thesis by (simp add: toggleSetComplete_def)
qed

lemma removeSet_unmatched:
  assumes "activeWorkout st = Some w"
    and "\<forall>ex\<in>set (w_exercises w). e_id ex = exerciseId \<longrightarrow> setId \<notin> set (map s_id (e_sets ex))"
  shows "removeSet exerciseId setId st = st"
proof -
  have "map (\<lambda>ex. if e_id ex \<noteq> exerciseId then ex
                  else ex\<lparr>e_sets := filter (\<lambda>s. s_id s \<noteq> setId) (e_sets ex)\<rparr>) (w_exercises w)
        = w_exercises w"
    using assms(2) by (intro map_idI) (simp add: filter_sets_unmatched)
  with assms(1) show ?thesis by (simp add: removeSet_def)
qed

lemma addSet_unmatched:
  assumes "activeWorkout st = Some w" and "exerciseId \<notin> set (map e_id (w_exercises w))"
  shows "addSet exerciseId previousSet newId st = st"
proof -
  have "map (\<lambda>ex. if e_id ex \<noteq> exerciseId then ex
                  else ex\<lparr>e_sets := e_sets ex @
                         [\<lparr>s_id = newId, s_weight = s_weight previousSet,
                           s_reps = s_reps previousSet, s_completed = False\<rparr>]\<rparr>) (w_exercises w)
        = w_exercises w"
    using assms(2) by (intro map_idI) auto
  with assms(1) show ?thesis by (simp add: addSet_def)
qed

text \<open>
  C4. The handlers of the store return a state for every state and every argument of
  their declared types (none of them has an error result: nothing in them throws).
  Without an active workout \<open>addExercise\<close>, \<open>updateSet\<close>, \<open>toggleSetComplete\<close>,
  \<open>addSet\<close>, \<open>removeSet\<close> and \<open>finishWorkout\<close> return the state they were given. With an
  active workout, an exercise id that no exercise has leaves the state as it is under
  \<open>updateSet\<close>, \<open>toggleSetComplete\<close>, \<open>addSet\<close> and \<open>removeSet\<close>, and so does a set id that
  no set of the named exercise has under \<open>updateSet\<close>, \<open>toggleSetComplete\<close> and
  \<open>removeSet\<close>.
\<close>

theorem mutations_total_noops:
  fixes st :: "('n::zero) State"
  shows
  "(activeWorkout st = None \<longrightarrow>
      addExercise name exId firstSetId st = st \<and>
      updateSet exerciseId setId field v st = st \<and>
      toggleSetComplete exerciseId setId st = st \<and>
      addSet exerciseId previousSet newId st = st \<and>
      removeSet exerciseId setId st = st \<and>
      finishWorkout apiKey generateContent st = st) \<and>
   (\<forall>w. activeWorkout st = Some w \<and> exerciseId \<notin> set (map e_id (w_exercises w)) \<longrightarrow>
      updateSet exerciseId setId field v st = st \<and>
      toggleSetComplete exerciseId setId st = st \<and>
      addSet exerciseId previousSet newId st = st \<and>
      removeSet exerciseId setId st = st) \<and>
   (\<forall>w. activeWorkout st = Some w \<and>
        (\<forall>ex\<in>set (w_exercises w). e_id ex = exerciseId \<longrightarrow> setId \<notin> set (map s_id (e_sets ex))) \<longrightarrow>
      updateSet exerciseId setId field v st = st \<and>
      toggleSetComplete exerciseId setId st = st \<and>
      removeSet exerciseId setId st = st)"
proof (intro conjI allI impI)
  assume "activeWorkout st = None"
  then show "addExercise name exId firstSetId st = st"
    and "updateSet exerciseId setId field v st = st"
    and "toggleSetComplete exerciseId setId st = st"
    and "addSet exerciseId previousSet newId st = st"
    and "removeSet exerciseId setId st = st"
    and "finishWorkout apiKey generateContent st = st"
    by (simp_all add: addExercise_def updateSet_def toggleSetComplete_def addSet_def
        removeSet_def finishWorkout_def)
next
  fix w
  assume a: "activeWorkout st = Some w \<and> exerciseId \<notin> set (map e_id (w_exercises w))"
  then have no_set: "\<forall>ex\<in>set (w_exercises w). e_id ex = exerciseId \<longrightarrow>
      setId \<notin> set (map s_id (e_sets ex))"
    by auto
  from a no_set show "updateSet exerciseId setId field v st = st"
    by (simp add: updateSet_unmatched)
  from a no_set show "toggleSetComplete exerciseId setId st = st"
    by (simp add: toggleSetComplete_unmatched)
  from a show "addSet exerciseId previousSet newId st = st"
    by (simp add: addSet_unmatched)
  from a no_set show "removeSet exerciseId setId st = st"
    by (simp add: removeSet_unmatched)
next
  fix w
  assume a: "activeWorkout st = Some w \<and>
        (\<forall>ex\<in>set (w_exercises w). e_id ex = exerciseId \<longrightarrow> setId \<notin> set (map s_id (e_sets ex)))"
  then show "updateSet exerciseId setId field v st = st"
    by (simp add: updateSet_unmatched)
  from a show "toggleSetComplete exerciseId setId st = st"
    by (simp add: toggleSetComplete_unmatched)
  from a show "removeSet exerciseId setId st = st"
    by (simp add: removeSet_unmatched)
qed

theorem mutations_total_noops_witness:
  "activeWorkout idle = None \<and>
   addExercise ''Squat'' ''e9'' ''s9'' idle = idle \<and>
   finishWorkout ''key'' (\<lambda>p. Throws ''offline'') idle = idle \<and>
   updateSet ''e2'' ''s4'' Weight 5 idle = idle \<and>
   activeWorkout training = Some legDay \<and>
   ''e7'' \<notin> set (map e_id (w_exercises legDay)) \<and>
   addSet ''e7'' \<lparr>s_id = ''s4'', s_weight = 100, s_reps = 5, s_completed = False\<rparr> ''n1'' training
     = training \<and>
   removeSet ''e7'' ''s4'' training = training \<and>
   updateSet ''e2'' ''s7'' Weight 5 training = training \<and>
   toggleSetComplete ''e2'' ''s7'' training = training \<and>
   removeSet ''e2'' ''s7'' training = training"
proof -
  have a: "activeWorkout idle = None"
    by (simp add: idle_def)
  have b: "activeWorkout training = Some legDay"
    by (simp add: training_def)
  have c: "''e7'' \<notin> set (map e_id (w_exercises legDay))"
    by (simp add: legDay_def squat_def)
  have d: "\<forall>ex\<in>set (w_exercises legDay). e_id ex = ''e2'' \<longrightarrow> ''s7'' \<notin> set (map s_id (e_sets ex))"
    by (simp add: legDay_def squat_def)
  from a mutations_total_noops [of idle "''Squat''" "''e9''" "''s9''" "''e2''" "''s4''" Weight 5 _ _
      "''key''" "\<lambda>p. Throws ''offline''"]
  have 1: "addExercise ''Squat'' ''e9'' ''s9'' idle = idle \<and>
     finishWorkout ''key'' (\<lambda>p. Throws ''offline'') idle = idle \<and>
     updateSet ''e2'' ''s4'' Weight 5 idle = idle"
    by blast
  from b c mutations_total_noops [of training _ _ _ "''e7''" "''s4''" _ _
      "\<lparr>s_id = ''s4'', s_weight = 100, s_reps = 5, s_completed = False\<rparr>" "''n1''"]
  have 2: "addSet ''e7'' \<lparr>s_id = ''s4'', s_weight = 100, s_reps = 5, s_completed = False\<rparr> ''n1''
      training = training \<and> removeSet ''e7'' ''s4'' training = training"
    by blast
  from b d mutations_total_noops [of training _ _ _ "''e2''" "''s7''" Weight 5]
  have 3: "updateSet ''e2'' ''s7'' Weight 5 training = training \<and>
     toggleSetComplete ''e2'' ''s7'' training = training \<and>
     removeSet ''e2'' ''s7'' training = training"
    by blast
  from a b c 1 2 3 show ?thesis by blast
qed

subsection \<open>The history is only ever extended at the front\<close>

lemma perform_workouts:
  "workouts (perform op st) = workouts st \<or>
   (\<exists>w k g. op = FinishWorkout k g \<and> activeWorkout st = Some w \<and>
      workouts (perform op st) =
        w\<lparr>w_status := Completed, w_durationSeconds := elapsedTime st\<rparr> # workouts st)"
  by (cases op)
    (auto simp: startWorkout_def addExercise_def updateSet_def toggleSetComplete_def addSet_def
      removeSet_def finishWorkout_def cancelWorkout_def tick_def Let_def split: option.splits)

lemma performAll_workouts: "\<exists>new. workouts (performAll ops st) = new @ workouts st"
proof (induction ops arbitrary: st)
  case Nil
  then show ?case by simp
next
  case (Cons op ops)
  from Cons.IH [of "perform op st"] obtain new
    where n: "workouts (performAll ops (perform op st)) = new @ workouts (perform op st)"
    by blast
  from perform_workouts [of op st] obtain first
    where "workouts (perform op st) = first @ workouts st"
    by (metis append_Cons append_Nil)
  with n show ?case by (metis append_assoc performAll.simps(2))
qed

text \<open>
  C9. Whatever operations the store performs, the workouts that are in the history stay
  in it as they are: the history afterwards is the old history with new entries in front
  of it. One operation either leaves the history alone or is a \<open>finishWorkout\<close> that
  puts the active workout, completed and with the elapsed seconds as its duration, in
  front; requesting advice does not touch the history either.
\<close>

theorem history_frozen:
  "(\<exists>new. workouts (performAll ops st) = new @ workouts st) \<and>
   (workouts (perform op st) = workouts st \<or>
     (\<exists>w k g. op = FinishWorkout k g \<and> activeWorkout st = Some w \<and>
        workouts (perform op st) =
          w\<lparr>w_status := Completed, w_durationSeconds := elapsedTime st\<rparr> # workouts st)) \<and>
   workouts (requestAiAdvice toLowerCase numberToString apiKey generateContent exercise ist) =
     workouts ist"
  using performAll_workouts [of ops st] perform_workouts [of op st]
  by (simp add: requestAiAdvice_def split: prod.splits)

theorem history_frozen_witness:
  "workouts training = [chestDay] \<and>
   workouts (performAll [UpdateSet ''e2'' ''s4'' Weight 120, ToggleSetComplete ''e2'' ''s4'',
       FinishWorkout [] (\<lambda>p. Responds None), StartWorkout ''Back Day'' ''w3'' ''now'',
       AddExercise ''Row'' ''e3'' ''s5'', RemoveSet ''e3'' ''s5'', CancelWorkout True] training)
     = [legDay\<lparr>w_exercises :=
                 [squat\<lparr>e_sets := [\<lparr>s_id = ''s4'', s_weight = 120, s_reps = 5, s_completed = True\<rparr>]\<rparr>],
               w_status := Completed, w_durationSeconds := 600\<rparr>, chestDay]"
  using history_frozen [of "[UpdateSet ''e2'' ''s4'' Weight 120, ToggleSetComplete ''e2'' ''s4'',
       FinishWorkout [] (\<lambda>p. Responds None), StartWorkout ''Back Day'' ''w3'' ''now'',
       AddExercise ''Row'' ''e3'' ''s5'', RemoveSet ''e3'' ''s5'', CancelWorkout True]" training]
  by (simp add: training_def legDay_def squat_def updateSet_def toggleSetComplete_def
      finishWorkout_def startWorkout_def addExercise_def removeSet_def cancelWorkout_def
      setField_def Let_def)

subsection \<open>History handed to the advice gateway\<close>

lemma take_append_take: "take n (xs @ take n ys) = take n (xs @ ys)"
  by (simp add: min_def)

lemma adviceHistory_members:
  "e \<in> set (adviceHistory toLowerCase ws exercise) \<Longrightarrow>
     toLowerCase (e_name e) = toLowerCase (e_name exercise) \<and> (\<exists>w\<in>set ws. e \<in> set (w_exercises w))"
  unfolding adviceHistory_def by (auto dest!: in_set_takeD)

lemma adviceHistory_Cons:
  "adviceHistory toLowerCase (w # ws) exercise =
     take 5 (filter (\<lambda>e. toLowerCase (e_name e) = toLowerCase (e_name exercise)) (w_exercises w)
             @ adviceHistory toLowerCase ws exercise)"
  by (simp add: adviceHistory_def take_append_take)

lemma lower_char_eq_iff:
  "(lower_char a = lower_char b) =
     (a = b \<or>
      (65 \<le> (of_char a :: nat) \<and> (of_char a :: nat) \<le> 90 \<and> b = lower_char a) \<or>
      (65 \<le> (of_char b :: nat) \<and> (of_char b :: nat) \<le> 90 \<and> a = lower_char b))"
proof -
  have up: "(of_char (char_of (of_char c + 32 :: nat)) :: nat) = of_char c + 32"
    if "(of_char c :: nat) \<le> 90" for c
    using that by simp
  have inj: "a = b"
    if "char_of (of_char a + 32 :: nat) = (char_of (of_char b + 32 :: nat) :: char)"
      "(of_char a :: nat) \<le> 90" "(of_char b :: nat) \<le> 90"
  proof -
    from that(1) have "(of_char (char_of (of_char a + 32 :: nat) :: char) :: nat) =
        of_char (char_of (of_char b + 32 :: nat) :: char)"
      by simp
    with that(2,3) have "(of_char a :: nat) = of_char b"
      by (simp only: up)
    then show ?thesis by simp
  qed
  show ?thesis
    using inj by (auto simp: lower_char_def)
qed

lemma asciiLower_eq_iff: "(asciiLower s = asciiLower t) = sameUpToCase s t"
proof (induction s arbitrary: t)
  case Nil
  then show ?case by (auto simp: asciiLower_def sameUpToCase_def)
next
  case (Cons a s)
  show ?case
  proof (cases t)
    case Nil
    then show ?thesis by (simp add: asciiLower_def sameUpToCase_def)
  next
    case (Cons b t')
    with Cons.IH [of t'] show ?thesis
      using lower_char_eq_iff [of a b]
      by (simp add: asciiLower_def sameUpToCase_def)
  qed
qed

lemma number_less_irrefl: "\<not> number_less a a"
  by (cases a) simp_all

lemma number_less_trans_not:
  "\<not> number_less h x \<Longrightarrow> \<not> number_less m h \<Longrightarrow> h \<noteq> NaN \<Longrightarrow> m \<noteq> NaN  \<Longrightarrow> x \<noteq> NaN \<Longrightarrow> \<not> number_less m x"
  by (cases h; cases x; cases m) simp_all

lemma number_less_not_sym: "number_less h x \<Longrightarrow> \<not> number_less x h"
  by (cases h; cases x) simp_all

lemma maxLoop_NaN: "NaN \<in> set xs \<Longrightarrow> maxLoop h xs = NaN"
  by (induction xs arbitrary: h) auto

lemma maxLoop_max:
  "NaN \<notin> set xs \<Longrightarrow> h \<noteq> NaN \<Longrightarrow>
     maxLoop h xs \<in> insert h (set xs) \<and> maxLoop h xs \<noteq> NaN \<and>
     \<not> number_less (maxLoop h xs) h \<and> (\<forall>x\<in>set xs. \<not> number_less (maxLoop h xs) x)"
proof (induction xs arbitrary: h)
  case Nil
  then show ?case by (simp add: number_less_irrefl)
next
  case (Cons x xs)
  from Cons.prems have x: "x \<noteq> NaN" and xs: "NaN \<notin> set xs" by auto
  show ?case
  proof (cases "number_less h x")
    case True
    from Cons.IH [OF xs x] have ih: "maxLoop x xs \<in> insert x (set xs)" "maxLoop x xs \<noteq> NaN"
      "\<not> number_less (maxLoop x xs) x" "\<forall>y\<in>set xs. \<not> number_less (maxLoop x xs) y"
      by auto
    have "\<not> number_less (maxLoop x xs) h"
      using number_less_trans_not [of x h "maxLoop x xs"] number_less_not_sym [OF True] ih(2,3) x
        Cons.prems(2)
      by blast
    with True x ih show ?thesis by auto
  next
    case False
    from Cons.IH [OF xs Cons.prems(2)] have ih: "maxLoop h xs \<in> insert h (set xs)"
      "maxLoop h xs \<noteq> NaN" "\<not> number_less (maxLoop h xs) h"
      "\<forall>y\<in>set xs. \<not> number_less (maxLoop h xs) y"
      by auto
    have "\<not> number_less (maxLoop h xs) x"
      using number_less_trans_not [of h x "maxLoop h xs"] False ih(2,3) x Cons.prems(2)
      by blast
    with False x ih show ?thesis by auto
  qed
qed

lemma NegInfinity_least: "x \<noteq> NaN \<Longrightarrow> x \<noteq> NegInfinity \<Longrightarrow> number_less NegInfinity x"
  by (cases x) simp_all

lemma Math_max_is_maximum:
  assumes "xs \<noteq> []" "NaN \<notin> set xs"
  shows "Math_max xs \<in> set xs \<and> (\<forall>x\<in>set xs. \<not> number_less (Math_max xs) x)"
proof -
  from maxLoop_max [OF assms(2), of NegInfinity]
  have m: "maxLoop NegInfinity xs \<in> insert NegInfinity (set xs)"
    "\<forall>x\<in>set xs. \<not> number_less (maxLoop NegInfinity xs) x"
    by auto
  have "maxLoop NegInfinity xs \<in> set xs"
  proof (cases "maxLoop NegInfinity xs = NegInfinity")
    case True
    from assms(1) obtain x where x: "x \<in> set xs" by (cases xs) auto
    with assms(2) have "x \<noteq> NaN" by auto
    with m(2) x True NegInfinity_least [of x] have "x = NegInfinity" by auto
    with x True show ?thesis by simp
  next
    case False
    with m(1) show ?thesis by simp
  qed
  with m(2) show ?thesis by (simp add: Math_max_def)
qed

lemma requestAiAdvice_prompt:
  assumes "generateContent
             (advicePrompt numberToString exercise (adviceHistory toLowerCase (workouts st) exercise)) =
           generateContent'
             (advicePrompt numberToString exercise (adviceHistory toLowerCase (workouts st) exercise))"
  shows "requestAiAdvice toLowerCase numberToString apiKey generateContent exercise st =
         requestAiAdvice toLowerCase numberToString apiKey generateContent' exercise st"
  using assms by (simp add: requestAiAdvice_def getExerciseAdvice_def)

lemma bench_selected: "adviceHistory asciiLower [priorChestDay] currentBench = [priorBench]"
  by code_simp

lemma bench_names:
  "asciiString ''Bench Press'' \<and> asciiString ''BENCH press'' \<and>
   sameUpToCase ''Bench Press'' ''BENCH press''"
  by code_simp

lemma bench_count: "string_of_nat (length (e_sets priorBench)) = ''3''"
  by code_simp

lemma string_of_int_80: "string_of_int 80 = ''80''"
  by code_simp

text \<open>
  C6. With a \<open>toLowerCase\<close> that folds ASCII letters, for every history and every current
  exercise: the exercises handed to the gateway come from the history and have the
  name of the current exercise after \<open>toLowerCase\<close>, which for ASCII names means the same
  name up to the case of letters. They are the first five such exercises in the stored
  order of the history (all of them, if there are fewer): the exercises of the workout at
  the front, which is the last one finished, in the order they were added, then those of
  the older workouts. Each is summarised as its number of sets and \<open>Math.max\<close> of its
  weights: with at least one set and no \<open>NaN\<close> weight this is one of the weights and none
  is greater, with a \<open>NaN\<close> weight it is \<open>NaN\<close>, and without sets it is \<open>-Infinity\<close>; an
  integer maximum of magnitude up to \<open>2^53\<close> appears in decimal. The history text is part
  of the prompt, and the prompt built from this selection is the only thing
  \<open>requestAiAdvice\<close> asks the endpoint.
\<close>

theorem adviceHistory_selection:
  assumes folds: "foldsAscii toLowerCase"
  shows
  "(\<forall>e\<in>set (adviceHistory toLowerCase ws exercise).
      toLowerCase (e_name e) = toLowerCase (e_name exercise) \<and>
      (\<exists>w\<in>set ws. e \<in> set (w_exercises w))) \<and>
   (asciiString name \<and> asciiString (e_name exercise) \<longrightarrow>
      (toLowerCase name = toLowerCase (e_name exercise)) = sameUpToCase name (e_name exercise)) \<and>
   prefix (adviceHistory toLowerCase ws exercise)
     (filter (\<lambda>e. toLowerCase (e_name e) = toLowerCase (e_name exercise))
        (concat (map w_exercises ws))) \<and>
   length (adviceHistory toLowerCase ws exercise) =
     min 5 (length (filter (\<lambda>e. toLowerCase (e_name e) = toLowerCase (e_name exercise))
                      (concat (map w_exercises ws)))) \<and>
   adviceHistory toLowerCase (w # ws) exercise =
     take 5 (filter (\<lambda>e. toLowerCase (e_name e) = toLowerCase (e_name exercise)) (w_exercises w)
             @ adviceHistory toLowerCase ws exercise) \<and>
   historyEntry numberToString h =
     string_of_nat (length (e_sets h)) @ '' sets, max weight '' @
     numberToString (Math_max (map s_weight (e_sets h))) @ ''kg'' \<and>
   (e_sets h \<noteq> [] \<and> NaN \<notin> set (map s_weight (e_sets h)) \<longrightarrow>
      Math_max (map s_weight (e_sets h)) \<in> set (map s_weight (e_sets h)) \<and>
      (\<forall>s\<in>set (e_sets h). \<not> number_less (Math_max (map s_weight (e_sets h))) (s_weight s))) \<and>
   (NaN \<in> set (map s_weight (e_sets h)) \<longrightarrow> Math_max (map s_weight (e_sets h)) = NaN) \<and>
   (e_sets h = [] \<longrightarrow> Math_max (map s_weight (e_sets h)) = NegInfinity) \<and>
   (printsSafeIntegers numberToString \<and> Math_max (map s_weight (e_sets h)) = Finite (of_int i) \<and>
      \<bar>i\<bar> \<le> 2 ^ 53 \<longrightarrow>
      historyEntry numberToString h =
        string_of_nat (length (e_sets h)) @ '' sets, max weight '' @ string_of_int i @ ''kg'') \<and>
   (history \<noteq> [] \<longrightarrow>
      historyText numberToString history =
        ''Previous performance: '' @ join ''; '' (map (historyEntry numberToString) history) @ ''.'') \<and>
   (\<exists>before after.
      advicePrompt numberToString exercise history =
        before @ historyText numberToString history @ after) \<and>
   (generateContent
        (advicePrompt numberToString exercise (adviceHistory toLowerCase (workouts st) exercise)) =
      generateContent'
        (advicePrompt numberToString exercise (adviceHistory toLowerCase (workouts st) exercise)) \<longrightarrow>
      requestAiAdvice toLowerCase numberToString apiKey generateContent exercise st =
      requestAiAdvice toLowerCase numberToString apiKey generateContent' exercise st)"
proof (intro conjI)
  show "\<forall>e\<in>set (adviceHistory toLowerCase ws exercise).
      toLowerCase (e_name e) = toLowerCase (e_name exercise) \<and>
      (\<exists>w\<in>set ws. e \<in> set (w_exercises w))"
    using adviceHistory_members by blast
  show "asciiString name \<and> asciiString (e_name exercise) \<longrightarrow>
      (toLowerCase name = toLowerCase (e_name exercise)) = sameUpToCase name (e_name exercise)"
    using folds by (simp add: foldsAscii_def asciiLower_eq_iff)
  show "prefix (adviceHistory toLowerCase ws exercise)
     (filter (\<lambda>e. toLowerCase (e_name e) = toLowerCase (e_name exercise))
        (concat (map w_exercises ws)))"
    by (simp add: adviceHistory_def take_is_prefix)
  show "length (adviceHistory toLowerCase ws exercise) =
     min 5 (length (filter (\<lambda>e. toLowerCase (e_name e) = toLowerCase (e_name exercise))
                      (concat (map w_exercises ws))))"
    by (simp add: adviceHistory_def min.commute)
  show "adviceHistory toLowerCase (w # ws) exercise =
     take 5 (filter (\<lambda>e. toLowerCase (e_name e) = toLowerCase (e_name exercise)) (w_exercises w)
             @ adviceHistory toLowerCase ws exercise)"
    by (rule adviceHistory_Cons)
  show "historyEntry numberToString h =
     string_of_nat (length (e_sets h)) @ '' sets, max weight '' @
     numberToString (Math_max (map s_weight (e_sets h))) @ ''kg''"
    by (simp add: historyEntry_def)
  show "e_sets h \<noteq> [] \<and> NaN \<notin> set (map s_weight (e_sets h)) \<longrightarrow>
      Math_max (map s_weight (e_sets h)) \<in> set (map s_weight (e_sets h)) \<and>
      (\<forall>s\<in>set (e_sets h). \<not> number_less (Math_max (map s_weight (e_sets h))) (s_weight s))"
    using Math_max_is_maximum [of "map s_weight (e_sets h)"] by auto
  show "NaN \<in> set (map s_weight (e_sets h)) \<longrightarrow> Math_max (map s_weight (e_sets h)) = NaN"
    by (simp add: Math_max_def maxLoop_NaN)
  show "e_sets h = [] \<longrightarrow> Math_max (map s_weight (e_sets h)) = NegInfinity"
    by (simp add: Math_max_def)
  show "printsSafeIntegers numberToString \<and> Math_max (map s_weight (e_sets h)) = Finite (of_int i) \<and>
      \<bar>i\<bar> \<le> 2 ^ 53 \<longrightarrow>
      historyEntry numberToString h =
        string_of_nat (length (e_sets h)) @ '' sets, max weight '' @ string_of_int i @ ''kg''"
    by (simp add: historyEntry_def printsSafeIntegers_def)
  show "history \<noteq> [] \<longrightarrow>
      historyText numberToString history =
        ''Previous performance: '' @ join ''; '' (map (historyEntry numberToString) history) @ ''.''"
    by (simp add: historyText_def)
  show "\<exists>before after.
      advicePrompt numberToString exercise history =
        before @ historyText numberToString history @ after"
    unfolding advicePrompt_def by (metis append.assoc)
  show "generateContent
        (advicePrompt numberToString exercise (adviceHistory toLowerCase (workouts st) exercise)) =
      generateContent'
        (advicePrompt numberToString exercise (adviceHistory toLowerCase (workouts st) exercise)) \<longrightarrow>
      requestAiAdvice toLowerCase numberToString apiKey generateContent exercise st =
      requestAiAdvice toLowerCase numberToString apiKey generateContent' exercise st"
    using requestAiAdvice_prompt by blast
qed

theorem adviceHistory_selection_witness:
  "foldsAscii asciiLower \<and> printsSafeIntegers printInteger \<and>
   e_name priorBench = ''Bench Press'' \<and> e_name currentBench = ''BENCH press'' \<and>
   asciiString ''Bench Press'' \<and> asciiString ''BENCH press'' \<and>
   sameUpToCase ''Bench Press'' ''BENCH press'' \<and>
   asciiLower ''Bench Press'' = asciiLower ''BENCH press'' \<and>
   map s_weight (e_sets priorBench) = [Finite 60, Finite 70, Finite 80] \<and>
   adviceHistory asciiLower [priorChestDay] currentBench = [priorBench] \<and>
   Math_max (map s_weight (e_sets priorBench)) = Finite 80 \<and>
   historyEntry printInteger priorBench = ''3 sets, max weight 80kg'' \<and>
   historyText printInteger [priorBench] =
     ''Previous performance: '' @ ''3 sets, max weight 80kg'' @ ''.'' \<and>
   (\<exists>before after.
      advicePrompt printInteger currentBench (adviceHistory asciiLower [priorChestDay] currentBench) =
        before @ ''3 sets, max weight 80kg'' @ after)"
proof -
  have folds: "foldsAscii asciiLower"
    by (simp add: foldsAscii_def)
  have prints: "printsSafeIntegers printInteger"
    by (simp add: printsSafeIntegers_def printInteger_def)
  have names: "e_name priorBench = ''Bench Press''" "e_name currentBench = ''BENCH press''"
    and weights: "map s_weight (e_sets priorBench) = [Finite 60, Finite 70, Finite 80]"
    by (simp_all add: priorBench_def currentBench_def)
  have maxv: "Math_max (map s_weight (e_sets priorBench)) = Finite (of_int 80)"
    by (simp add: weights Math_max_def)
  have small: "\<bar>80 :: int\<bar> \<le> 2 ^ 53"
    by simp
  note sel = adviceHistory_selection [OF folds, of "[]" currentBench "''Bench Press''"
      priorChestDay printInteger priorBench 80 "[priorBench]"]
  from sel bench_names names have same: "asciiLower ''Bench Press'' = asciiLower ''BENCH press''"
    by simp
  have chosen: "adviceHistory asciiLower [priorChestDay] currentBench = [priorBench]"
    by (rule bench_selected)
  from sel prints maxv small have "historyEntry printInteger priorBench =
      string_of_nat (length (e_sets priorBench)) @ '' sets, max weight '' @
      string_of_int 80 @ ''kg''"
    by blast
  then have entry: "historyEntry printInteger priorBench = ''3 sets, max weight 80kg''"
    unfolding bench_count string_of_int_80 by simp
  from sel have "historyText printInteger [priorBench] =
      ''Previous performance: '' @ join ''; '' (map (historyEntry printInteger) [priorBench]) @ ''.''"
    by blast
  then have whole: "historyText printInteger [priorBench] =
      ''Previous performance: '' @ ''3 sets, max weight 80kg'' @ ''.''"
    by (simp add: entry)
  from sel obtain before after
    where "advicePrompt printInteger currentBench [priorBench] =
      before @ historyText printInteger [priorBench] @ after"
    by blast
  then have "advicePrompt printInteger currentBench
        (adviceHistory asciiLower [priorChestDay] currentBench) =
      (before @ ''Previous performance: '') @ ''3 sets, max weight 80kg'' @ (''.'' @ after)"
    by (simp add: whole chosen)
  then have inside: "\<exists>before after.
      advicePrompt printInteger currentBench (adviceHistory asciiLower [priorChestDay] currentBench) =
        before @ ''3 sets, max weight 80kg'' @ after"
    by blast
  from maxv have maxv': "Math_max (map s_weight (e_sets priorBench)) = Finite 80"
    by simp
  from folds prints names bench_names same weights chosen maxv' entry whole inside
  show ?thesis by (intro conjI) simp_all
qed

text \<open>
  The selection is not the most recent five in most-recent-first order: of six Bench
  Press exercises of one finished session it takes the first five in the order they were
  performed and leaves out the last one, where the specification's wording gives the
  last five, the last one first. And \<open>Math.max\<close> of weights with a \<open>NaN\<close> among them (the
  weight of a set whose input was cleared) is \<open>NaN\<close>, not the greatest weight.
\<close>

theorem adviceHistory_most_recent_counterexample:
  "map e_name (concat (map w_exercises (workouts sixBenchSession))) =
     [''Bench Press'', ''Bench Press'', ''Bench Press'', ''Bench Press'', ''Bench Press'',
      ''Bench Press''] \<and>
   map e_id (concat (map w_exercises (workouts sixBenchSession))) =
     [''a1'', ''a2'', ''a3'', ''a4'', ''a5'', ''a6''] \<and>
   map e_id (adviceHistory asciiLower (workouts sixBenchSession) currentBench) =
     [''a1'', ''a2'', ''a3'', ''a4'', ''a5''] \<and>
   map e_id (spec_mostRecentFive asciiLower (workouts sixBenchSession) currentBench) =
     [''a6'', ''a5'', ''a4'', ''a3'', ''a2''] \<and>
   adviceHistory asciiLower (workouts sixBenchSession) currentBench \<noteq>
     spec_mostRecentFive asciiLower (workouts sixBenchSession) currentBench \<and>
   Math_max [Finite 60, NaN, Finite 80] = NaN"
proof -
  have run: "map e_name (concat (map w_exercises (workouts sixBenchSession))) =
     [''Bench Press'', ''Bench Press'', ''Bench Press'', ''Bench Press'', ''Bench Press'',
      ''Bench Press'']"
    "map e_id (concat (map w_exercises (workouts sixBenchSession))) =
     [''a1'', ''a2'', ''a3'', ''a4'', ''a5'', ''a6'']"
    by code_simp+
  have code: "map e_id (adviceHistory asciiLower (workouts sixBenchSession) currentBench) =
     [''a1'', ''a2'', ''a3'', ''a4'', ''a5'']"
    by code_simp
  have spec: "map e_id (spec_mostRecentFive asciiLower (workouts sixBenchSession) currentBench) =
     [''a6'', ''a5'', ''a4'', ''a3'', ''a2'']"
    by code_simp
  from code spec have differ: "adviceHistory asciiLower (workouts sixBenchSession) currentBench \<noteq>
     spec_mostRecentFive asciiLower (workouts sixBenchSession) currentBench"
    by auto
  have nan: "Math_max [Finite 60, NaN, Finite 80] = NaN"
    by (simp add: Math_max_def)
  from run code spec differ nan show ?thesis by (intro conjI)
qed

subsection \<open>Adding a set\<close>

text \<open>
  C7. For every active workout and every exercise in it that has a set, pressing Add Set
  (the call \<open>addSet(exercise.id, last set)\<close> of the view) succeeds and changes only the
  exercise list of the active workout: the exercise keeps its sets and gets exactly one
  more at the end, with the new identifier, the weight and reps of the former last set
  and completed false; its id and name stay; every exercise with another id is
  unchanged, and with distinct exercise ids every other exercise is.
\<close>

theorem addSet_appends_copy_of_last:
  assumes active: "activeWorkout st = Some w"
    and i: "i < length (w_exercises w)"
    and nonempty: "e_sets (w_exercises w ! i) \<noteq> []"
  shows "\<exists>exs'.
     click (AddSetClick i newId) st = Inr (st\<lparr>activeWorkout := Some (w\<lparr>w_exercises := exs'\<rparr>)\<rparr>) \<and>
     length exs' = length (w_exercises w) \<and>
     e_sets (exs' ! i) =
       e_sets (w_exercises w ! i) @
         [\<lparr>s_id = newId, s_weight = s_weight (last (e_sets (w_exercises w ! i))),
           s_reps = s_reps (last (e_sets (w_exercises w ! i))), s_completed = False\<rparr>] \<and>
     e_id (exs' ! i) = e_id (w_exercises w ! i) \<and>
     e_name (exs' ! i) = e_name (w_exercises w ! i) \<and>
     (\<forall>k < length (w_exercises w).
        e_id (w_exercises w ! k) \<noteq> e_id (w_exercises w ! i) \<longrightarrow> exs' ! k = w_exercises w ! k) \<and>
     (distinct (map e_id (w_exercises w)) \<longrightarrow>
        (\<forall>k < length (w_exercises w). k \<noteq> i \<longrightarrow> exs' ! k = w_exercises w ! k))"
proof -
  let ?x = "w_exercises w ! i"
  let ?new = "\<lparr>s_id = newId, s_weight = s_weight (last (e_sets ?x)),
                s_reps = s_reps (last (e_sets ?x)), s_completed = False\<rparr>"
  let ?exs' = "map (\<lambda>ex. if e_id ex \<noteq> e_id ?x then ex else ex\<lparr>e_sets := e_sets ex @ [?new]\<rparr>)
                  (w_exercises w)"
  have step: "click (AddSetClick i newId) st =
      Inr (st\<lparr>activeWorkout := Some (w\<lparr>w_exercises := ?exs'\<rparr>)\<rparr>)"
    using active i nonempty by (simp add: clickAddSet_nonempty addSet_def)
  have others: "?exs' ! k = w_exercises w ! k"
    if "k < length (w_exercises w)" "k \<noteq> i" "distinct (map e_id (w_exercises w))" for k
  proof -
    from that i have "e_id (w_exercises w ! k) \<noteq> e_id ?x"
      by (metis length_map nth_eq_iff_index_eq nth_map)
    with that(1) show ?thesis by simp
  qed
  have "length ?exs' = length (w_exercises w)"
    and "e_sets (?exs' ! i) = e_sets ?x @ [?new]"
    and "e_id (?exs' ! i) = e_id ?x"
    and "e_name (?exs' ! i) = e_name ?x"
    and "\<forall>k < length (w_exercises w). e_id (w_exercises w ! k) \<noteq> e_id ?x \<longrightarrow>
           ?exs' ! k = w_exercises w ! k"
    using i by simp_all
  with step others show ?thesis by blast
qed

theorem addSet_appends_copy_of_last_witness:
  "activeWorkout training = Some legDay \<and> 0 < length (w_exercises legDay) \<and>
   e_sets (w_exercises legDay ! 0) \<noteq> [] \<and>
   (\<exists>exs'. click (AddSetClick 0 ''n1'') training =
        Inr (training\<lparr>activeWorkout := Some (legDay\<lparr>w_exercises := exs'\<rparr>)\<rparr>) \<and>
      length exs' = 1 \<and>
      e_sets (exs' ! 0) =
        [\<lparr>s_id = ''s4'', s_weight = 100, s_reps = 5, s_completed = False\<rparr>,
         \<lparr>s_id = ''n1'', s_weight = 100, s_reps = 5, s_completed = False\<rparr>])"
proof -
  have a: "activeWorkout training = Some legDay"
    by (simp add: training_def)
  have b: "0 < length (w_exercises legDay)"
    by (simp add: legDay_def)
  have c: "e_sets (w_exercises legDay ! 0) \<noteq> []"
    by (simp add: legDay_def squat_def)
  from addSet_appends_copy_of_last [OF a b c, of "''n1''"] obtain exs'
    where r: "click (AddSetClick 0 ''n1'') training =
        Inr (training\<lparr>activeWorkout := Some (legDay\<lparr>w_exercises := exs'\<rparr>)\<rparr>)"
      "length exs' = length (w_exercises legDay)"
      "e_sets (exs' ! 0) = e_sets (w_exercises legDay ! 0) @
         [\<lparr>s_id = ''n1'', s_weight = s_weight (last (e_sets (w_exercises legDay ! 0))),
           s_reps = s_reps (last (e_sets (w_exercises legDay ! 0))), s_completed = False\<rparr>]"
    by blast
  from r(2) have "length exs' = 1"
    by (simp add: legDay_def)
  moreover from r(3) have "e_sets (exs' ! 0) =
        [\<lparr>s_id = ''s4'', s_weight = 100, s_reps = 5, s_completed = False\<rparr>,
         \<lparr>s_id = ''n1'', s_weight = 100, s_reps = 5, s_completed = False\<rparr>]"
    by (simp add: legDay_def squat_def)
  ultimately show ?thesis using a b c r(1) by blast
qed

subsection \<open>Frame of the set editors\<close>

text \<open>
  C10. With an active workout, \<open>updateSet\<close> and \<open>toggleSetComplete\<close> change nothing of the
  state but the active workout, and of the active workout nothing but sets: its id,
  name, date, status and duration stay, and so do the ids and names of its exercises and
  the ids of the sets of every exercise, in their order. \<open>updateSet\<close> leaves the
  completed flag of every set and the field it was not asked to write;
  \<open>toggleSetComplete\<close> leaves the weight and reps of every set; and a set that the
  exercise id and set id do not name is unchanged under both.
\<close>

theorem updateSet_toggle_frame:
  assumes active: "activeWorkout st = Some w"
  shows "\<exists>w1 w2.
     updateSet exerciseId setId field v st = st\<lparr>activeWorkout := Some w1\<rparr> \<and>
     toggleSetComplete exerciseId setId st = st\<lparr>activeWorkout := Some w2\<rparr> \<and>
     w_id w1 = w_id w \<and> w_name w1 = w_name w \<and> w_date w1 = w_date w \<and>
     w_status w1 = w_status w \<and> w_durationSeconds w1 = w_durationSeconds w \<and>
     w_id w2 = w_id w \<and> w_name w2 = w_name w \<and> w_date w2 = w_date w \<and>
     w_status w2 = w_status w \<and> w_durationSeconds w2 = w_durationSeconds w \<and>
     map e_id (w_exercises w1) = map e_id (w_exercises w) \<and>
     map e_id (w_exercises w2) = map e_id (w_exercises w) \<and>
     map e_name (w_exercises w1) = map e_name (w_exercises w) \<and>
     map e_name (w_exercises w2) = map e_name (w_exercises w) \<and>
     map (\<lambda>ex. map s_id (e_sets ex)) (w_exercises w1) =
       map (\<lambda>ex. map s_id (e_sets ex)) (w_exercises w) \<and>
     map (\<lambda>ex. map s_id (e_sets ex)) (w_exercises w2) =
       map (\<lambda>ex. map s_id (e_sets ex)) (w_exercises w) \<and>
     (\<forall>i j. i < length (w_exercises w) \<and> j < length (e_sets (w_exercises w ! i)) \<longrightarrow>
        s_completed (e_sets (w_exercises w1 ! i) ! j) = s_completed (e_sets (w_exercises w ! i) ! j) \<and>
        (field = Weight \<longrightarrow>
           s_reps (e_sets (w_exercises w1 ! i) ! j) = s_reps (e_sets (w_exercises w ! i) ! j)) \<and>
        (field = Reps \<longrightarrow>
           s_weight (e_sets (w_exercises w1 ! i) ! j) = s_weight (e_sets (w_exercises w ! i) ! j)) \<and>
        s_weight (e_sets (w_exercises w2 ! i) ! j) = s_weight (e_sets (w_exercises w ! i) ! j) \<and>
        s_reps (e_sets (w_exercises w2 ! i) ! j) = s_reps (e_sets (w_exercises w ! i) ! j) \<and>
        (e_id (w_exercises w ! i) \<noteq> exerciseId \<or> s_id (e_sets (w_exercises w ! i) ! j) \<noteq> setId \<longrightarrow>
           e_sets (w_exercises w1 ! i) ! j = e_sets (w_exercises w ! i) ! j \<and>
           e_sets (w_exercises w2 ! i) ! j = e_sets (w_exercises w ! i) ! j))"
proof -
  let ?up = "\<lambda>s. if s_id s = setId then setField field v s else s"
  let ?tg = "\<lambda>s. if s_id s = setId then s\<lparr>s_completed := \<not> s_completed s\<rparr> else s"
  let ?w1 = "w\<lparr>w_exercises :=
     map (\<lambda>ex. if e_id ex \<noteq> exerciseId then ex else ex\<lparr>e_sets := map ?up (e_sets ex)\<rparr>)
         (w_exercises w)\<rparr>"
  let ?w2 = "w\<lparr>w_exercises :=
     map (\<lambda>ex. if e_id ex \<noteq> exerciseId then ex else ex\<lparr>e_sets := map ?tg (e_sets ex)\<rparr>)
         (w_exercises w)\<rparr>"
  have u: "updateSet exerciseId setId field v st = st\<lparr>activeWorkout := Some ?w1\<rparr>"
    using active by (simp add: updateSet_def)
  have t: "toggleSetComplete exerciseId setId st = st\<lparr>activeWorkout := Some ?w2\<rparr>"
    using active by (simp add: toggleSetComplete_def)
  have ids: "map s_id (map ?up xs) = map s_id xs" "map s_id (map ?tg xs) = map s_id xs"
    for xs :: "'a WorkoutSet list"
    by (induction xs) (auto simp: setField_def split: Field.splits)
  have shape:
    "map e_id (w_exercises ?w1) = map e_id (w_exercises w)"
    "map e_id (w_exercises ?w2) = map e_id (w_exercises w)"
    "map e_name (w_exercises ?w1) = map e_name (w_exercises w)"
    "map e_name (w_exercises ?w2) = map e_name (w_exercises w)"
    "map (\<lambda>ex. map s_id (e_sets ex)) (w_exercises ?w1) =
       map (\<lambda>ex. map s_id (e_sets ex)) (w_exercises w)"
    "map (\<lambda>ex. map s_id (e_sets ex)) (w_exercises ?w2) =
       map (\<lambda>ex. map s_id (e_sets ex)) (w_exercises w)"
    using ids by (simp_all add: o_def if_distrib cong: if_cong)
  have sets: "s_completed (e_sets (w_exercises ?w1 ! i) ! j) = s_completed (e_sets (w_exercises w ! i) ! j) \<and>
        (field = Weight \<longrightarrow>
           s_reps (e_sets (w_exercises ?w1 ! i) ! j) = s_reps (e_sets (w_exercises w ! i) ! j)) \<and>
        (field = Reps \<longrightarrow>
           s_weight (e_sets (w_exercises ?w1 ! i) ! j) = s_weight (e_sets (w_exercises w ! i) ! j)) \<and>
        s_weight (e_sets (w_exercises ?w2 ! i) ! j) = s_weight (e_sets (w_exercises w ! i) ! j) \<and>
        s_reps (e_sets (w_exercises ?w2 ! i) ! j) = s_reps (e_sets (w_exercises w ! i) ! j) \<and>
        (e_id (w_exercises w ! i) \<noteq> exerciseId \<or> s_id (e_sets (w_exercises w ! i) ! j) \<noteq> setId \<longrightarrow>
           e_sets (w_exercises ?w1 ! i) ! j = e_sets (w_exercises w ! i) ! j \<and>
           e_sets (w_exercises ?w2 ! i) ! j = e_sets (w_exercises w ! i) ! j)"
    if "i < length (w_exercises w)" "j < length (e_sets (w_exercises w ! i))" for i j
    using that by (simp add: setField_def split: Field.splits)
  have fields: "w_id ?w1 = w_id w \<and> w_name ?w1 = w_name w \<and> w_date ?w1 = w_date w \<and>
     w_status ?w1 = w_status w \<and> w_durationSeconds ?w1 = w_durationSeconds w \<and>
     w_id ?w2 = w_id w \<and> w_name ?w2 = w_name w \<and> w_date ?w2 = w_date w \<and>
     w_status ?w2 = w_status w \<and> w_durationSeconds ?w2 = w_durationSeconds w"
    by simp
  show ?thesis
    apply (rule exI [of _ ?w1])
    apply (rule exI [of _ ?w2])
    using u t fields shape sets by blast
qed

theorem updateSet_toggle_frame_witness:
  "activeWorkout training = Some legDay \<and>
   0 < length (w_exercises legDay) \<and> 0 < length (e_sets (w_exercises legDay ! 0)) \<and>
   (\<exists>w1 w2.
      updateSet ''e2'' ''s4'' Weight 120 training = training\<lparr>activeWorkout := Some w1\<rparr> \<and>
      toggleSetComplete ''e2'' ''s4'' training = training\<lparr>activeWorkout := Some w2\<rparr> \<and>
      w_name w1 = ''Leg Day'' \<and> w_status w2 = Active \<and>
      map e_id (w_exercises w1) = [''e2''] \<and>
      map (\<lambda>ex. map s_id (e_sets ex)) (w_exercises w2) = [[''s4'']] \<and>
      s_reps (e_sets (w_exercises w1 ! 0) ! 0) = 5 \<and>
      \<not> s_completed (e_sets (w_exercises w1 ! 0) ! 0) \<and>
      s_weight (e_sets (w_exercises w2 ! 0) ! 0) = 100)"
proof -
  have a: "activeWorkout training = Some legDay"
    by (simp add: training_def)
  have b: "0 < length (w_exercises legDay) \<and> 0 < length (e_sets (w_exercises legDay ! 0))"
    by (simp add: legDay_def squat_def)
  from updateSet_toggle_frame [OF a, of "''e2''" "''s4''" Weight 120] obtain w1 w2
    where r: "updateSet ''e2'' ''s4'' Weight 120 training = training\<lparr>activeWorkout := Some w1\<rparr>"
      "toggleSetComplete ''e2'' ''s4'' training = training\<lparr>activeWorkout := Some w2\<rparr>"
      "w_name w1 = w_name legDay" "w_status w2 = w_status legDay"
      "map e_id (w_exercises w1) = map e_id (w_exercises legDay)"
      "map (\<lambda>ex. map s_id (e_sets ex)) (w_exercises w2) =
         map (\<lambda>ex. map s_id (e_sets ex)) (w_exercises legDay)"
    and sets: "\<forall>i j. i < length (w_exercises legDay) \<and> j < length (e_sets (w_exercises legDay ! i)) \<longrightarrow>
        s_completed (e_sets (w_exercises w1 ! i) ! j) = s_completed (e_sets (w_exercises legDay ! i) ! j) \<and>
        (Weight = Weight \<longrightarrow>
           s_reps (e_sets (w_exercises w1 ! i) ! j) = s_reps (e_sets (w_exercises legDay ! i) ! j)) \<and>
        s_weight (e_sets (w_exercises w2 ! i) ! j) = s_weight (e_sets (w_exercises legDay ! i) ! j)"
    by blast
  from sets b have
    "s_completed (e_sets (w_exercises w1 ! 0) ! 0) = s_completed (e_sets (w_exercises legDay ! 0) ! 0)"
    "s_reps (e_sets (w_exercises w1 ! 0) ! 0) = s_reps (e_sets (w_exercises legDay ! 0) ! 0)"
    "s_weight (e_sets (w_exercises w2 ! 0) ! 0) = s_weight (e_sets (w_exercises legDay ! 0) ! 0)"
    by blast+
  then have vals: "\<not> s_completed (e_sets (w_exercises w1 ! 0) ! 0)"
    "s_reps (e_sets (w_exercises w1 ! 0) ! 0) = 5"
    "s_weight (e_sets (w_exercises w2 ! 0) ! 0) = 100"
    by (simp_all add: legDay_def squat_def)
  from r(3-6) have shape: "w_name w1 = ''Leg Day''" "w_status w2 = Active"
    "map e_id (w_exercises w1) = [''e2'']"
    "map (\<lambda>ex. map s_id (e_sets ex)) (w_exercises w2) = [[''s4'']]"
    by (simp_all add: legDay_def squat_def)
  have "updateSet ''e2'' ''s4'' Weight 120 training = training\<lparr>activeWorkout := Some w1\<rparr> \<and>
      toggleSetComplete ''e2'' ''s4'' training = training\<lparr>activeWorkout := Some w2\<rparr> \<and>
      w_name w1 = ''Leg Day'' \<and> w_status w2 = Active \<and>
      map e_id (w_exercises w1) = [''e2''] \<and>
      map (\<lambda>ex. map s_id (e_sets ex)) (w_exercises w2) = [[''s4'']] \<and>
      s_reps (e_sets (w_exercises w1 ! 0) ! 0) = 5 \<and>
      \<not> s_completed (e_sets (w_exercises w1 ! 0) ! 0) \<and>
      s_weight (e_sets (w_exercises w2 ! 0) ! 0) = 100"
    using r(1,2) shape vals by (intro conjI)
  then have "\<exists>w1 w2.
      updateSet ''e2'' ''s4'' Weight 120 training = training\<lparr>activeWorkout := Some w1\<rparr> \<and>
      toggleSetComplete ''e2'' ''s4'' training = training\<lparr>activeWorkout := Some w2\<rparr> \<and>
      w_name w1 = ''Leg Day'' \<and> w_status w2 = Active \<and>
      map e_id (w_exercises w1) = [''e2''] \<and>
      map (\<lambda>ex. map s_id (e_sets ex)) (w_exercises w2) = [[''s4'']] \<and>
      s_reps (e_sets (w_exercises w1 ! 0) ! 0) = 5 \<and>
      \<not> s_completed (e_sets (w_exercises w1 ! 0) ! 0) \<and>
      s_weight (e_sets (w_exercises w2 ! 0) ! 0) = 100"
    by (intro exI)
  with a b show ?thesis
    by (intro conjI) simp_all
qed

end
